theory Spec2Isabelle
  imports Complex_Main "HOL-Library.Word" "HOL-Library.AList" "HOL-Library.Sublist"
begin

section \<open>Bytes, errors and the values of the SDK\<close>

text \<open>
  The client SDK in \<^verbatim>\<open>sdk/rediopy/contract/__init__.py\<close> builds instructions for an on-chain
  program. A Python \<^verbatim>\<open>bytes\<close> object is a list of 8-bit words, a Python \<^verbatim>\<open>int\<close> is an
  unbounded \<^typ>\<open>int\<close>, and every exception the code can raise is a value of \<open>error\<close>; a
  function that may raise returns \<open>error + 'a\<close> with \<open>Inl\<close> for the exception.
\<close>

type_synonym byte = "8 word"
type_synonym bytes = "byte list"

datatype error =
    StructError          \<comment> \<open>\<^verbatim>\<open>struct.error\<close>: argument out of range for the format\<close>
  | UnicodeEncodeError   \<comment> \<open>\<^verbatim>\<open>str.encode\<close> on a lone surrogate\<close>
  | KeyError             \<comment> \<open>missing dictionary key\<close>
  | ValueError           \<comment> \<open>\<^verbatim>\<open>Pubkey.from_string\<close> on a malformed string\<close>
  | DerivationError      \<comment> \<open>\<^verbatim>\<open>Pubkey.find_program_address\<close> found no address\<close>
  | AttributeError       \<comment> \<open>method missing on the value's type\<close>
  | TypeError            \<comment> \<open>operator not supported by the value's type\<close>
  | IndexError           \<comment> \<open>list index out of range\<close>

text \<open>Sequencing of computations that may raise: the first exception wins.\<close>

definition bind :: "error + 'a \<Rightarrow> ('a \<Rightarrow> error + 'b) \<Rightarrow> error + 'b" where
  "bind m f = (case m of Inl e \<Rightarrow> Inl e | Inr x \<Rightarrow> f x)"

subsection \<open>Byte literals and \<^verbatim>\<open>struct.pack\<close>\<close>

text \<open>A byte literal such as \<^verbatim>\<open>b"pool"\<close>: the ASCII codes of its characters.\<close>

definition ascii :: "string \<Rightarrow> bytes" where
  "ascii s = map of_char s"

text \<open>
  \<open>le_bytes n v\<close> is the \<open>n\<close>-byte little-endian representation of \<open>v\<close>, least significant
  byte first; \<open>le_value\<close> reads such a representation back as an unsigned integer.
\<close>

fun le_bytes :: "nat \<Rightarrow> int \<Rightarrow> bytes" where
  "le_bytes 0 v = []"
| "le_bytes (Suc n) v = word_of_int (v mod 256) # le_bytes n (v div 256)"

fun le_value :: "bytes \<Rightarrow> int" where
  "le_value [] = 0"
| "le_value (b # bs) = uint b + 256 * le_value bs"

text \<open>
  \<^verbatim>\<open>struct.pack("<H", v)\<close>, \<^verbatim>\<open>struct.pack("<I", v)\<close> and \<^verbatim>\<open>struct.pack("<Q", v)\<close>: an
  unsigned little-endian integer of 2, 4 and 8 bytes. Python raises \<^verbatim>\<open>struct.error\<close> when
  the argument is negative or does not fit the width.
\<close>

definition pack_le :: "nat \<Rightarrow> int \<Rightarrow> error + bytes" where
  "pack_le n v = (if 0 \<le> v \<and> v < 256 ^ n then Inr (le_bytes n v) else Inl StructError)"

definition pack_H :: "int \<Rightarrow> error + bytes" where
  "pack_H v = pack_le 2 v"

definition pack_I :: "int \<Rightarrow> error + bytes" where
  "pack_I v = pack_le 4 v"

definition pack_Q :: "int \<Rightarrow> error + bytes" where
  "pack_Q v = pack_le 8 v"

subsection \<open>\<^verbatim>\<open>str.encode("utf-8")\<close>\<close>

text \<open>
  A Python \<^verbatim>\<open>str\<close> is a sequence of Unicode code points below \<open>0x110000\<close>. Encoding to
  UTF-8 takes one to four bytes per code point and raises \<^verbatim>\<open>UnicodeEncodeError\<close> on a
  surrogate (\<open>0xD800\<close> to \<open>0xDFFF\<close>).
\<close>

type_synonym str = "nat list"

definition str_of :: "string \<Rightarrow> str" where
  "str_of s = map of_char s"

definition utf8_char :: "nat \<Rightarrow> error + bytes" where
  "utf8_char c =
     (if c < 0x80 then Inr [of_nat c]
      else if c < 0x800 then Inr [of_nat (0xC0 + c div 64), of_nat (0x80 + c mod 64)]
      else if 0xD800 \<le> c \<and> c \<le> 0xDFFF then Inl UnicodeEncodeError
      else if c < 0x10000 then
        Inr [of_nat (0xE0 + c div 4096), of_nat (0x80 + c div 64 mod 64), of_nat (0x80 + c mod 64)]
      else if c < 0x110000 then
        Inr [of_nat (0xF0 + c div 262144), of_nat (0x80 + c div 4096 mod 64),
             of_nat (0x80 + c div 64 mod 64), of_nat (0x80 + c mod 64)]
      else Inl UnicodeEncodeError)"

fun encode_utf8 :: "str \<Rightarrow> error + bytes" where
  "encode_utf8 [] = Inr []"
| "encode_utf8 (c # cs) =
     bind (utf8_char c) (\<lambda>b. bind (encode_utf8 cs) (\<lambda>bs. Inr (b @ bs)))"

subsection \<open>Addresses, key pairs, account references, instructions\<close>

text \<open>
  \<^verbatim>\<open>solders.pubkey.Pubkey\<close> wraps the bytes of an address; \<^verbatim>\<open>bytes(pubkey)\<close> returns
  them. Of a \<^verbatim>\<open>Keypair\<close> the SDK reads only \<^verbatim>\<open>pubkey()\<close>.
\<close>

datatype pubkey = Pubkey (to_bytes: bytes)

record keypair =
  secret :: bytes
  pubkey :: pubkey

record account_meta =
  meta_pubkey :: pubkey
  is_signer :: bool
  is_writable :: bool

record instruction =
  program_id :: pubkey
  data :: bytes
  accounts :: "account_meta list"

definition AccountMeta :: "pubkey \<Rightarrow> bool \<Rightarrow> bool \<Rightarrow> account_meta" where
  "AccountMeta pk s w = \<lparr>meta_pubkey = pk, is_signer = s, is_writable = w\<rparr>"

definition Instruction :: "pubkey \<Rightarrow> bytes \<Rightarrow> account_meta list \<Rightarrow> instruction" where
  "Instruction p d accs = \<lparr>program_id = p, data = d, accounts = accs\<rparr>"

subsection \<open>\<^verbatim>\<open>Pubkey.from_string\<close>: base58\<close>

definition b58_alphabet :: string where
  "b58_alphabet = ''123456789ABCDEFGHJKLMNPQRSTUVWXYZabcdefghijkmnopqrstuvwxyz''"

fun index_of :: "'a \<Rightarrow> 'a list \<Rightarrow> nat option" where
  "index_of x [] = None"
| "index_of x (y # ys) = (if x = y then Some 0 else map_option Suc (index_of x ys))"

fun b58_value :: "nat \<Rightarrow> string \<Rightarrow> nat option" where
  "b58_value acc [] = Some acc"
| "b58_value acc (c # cs) =
     (case index_of c b58_alphabet of None \<Rightarrow> None | Some d \<Rightarrow> b58_value (acc * 58 + d) cs)"

text \<open>Big-endian bytes of a number, most significant byte first, none for zero.\<close>

fun be_bytes :: "nat \<Rightarrow> bytes \<Rightarrow> bytes" where
  "be_bytes v acc = (if v = 0 then acc else be_bytes (v div 256) (of_nat (v mod 256) # acc))"

declare be_bytes.simps [simp del]

definition b58decode :: "string \<Rightarrow> bytes option" where
  "b58decode s =
     (case b58_value 0 s of
        None \<Rightarrow> None
      | Some v \<Rightarrow> Some (replicate (length (takeWhile (\<lambda>c. c = CHR ''1'') s)) 0 @ be_bytes v []))"

definition from_string :: "string \<Rightarrow> error + pubkey" where
  "from_string s =
     (case b58decode s of
        None \<Rightarrow> Inl ValueError
      | Some bs \<Rightarrow> if length bs = 32 then Inr (Pubkey bs) else Inl ValueError)"

section \<open>The contract client\<close>

subsection \<open>Identifiers and discriminators\<close>

text \<open>
  The class attributes of \<^verbatim>\<open>RedioContract\<close>. The three program identifiers are decoded
  from their base58 strings when the class is defined; \<^verbatim>\<open>SYS_PROGRAM_ID\<close> is imported
  from \<^verbatim>\<open>solders.system_program\<close> and is the all-zero address.
\<close>

definition PROGRAM_ID :: pubkey where
  "PROGRAM_ID = projr (from_string ''CFQoHeX28aKhpgsLCSGM2zpou6RkRrwRoHVToWS2B6tQ'')"

definition TOKEN_PROGRAM_ID :: pubkey where
  "TOKEN_PROGRAM_ID = projr (from_string ''TokenkegQfeZyiNwAJbNbGKPFXCWuBvf9Ss623VQ5DA'')"

definition ASSOCIATED_TOKEN_PROGRAM_ID :: pubkey where
  "ASSOCIATED_TOKEN_PROGRAM_ID = projr (from_string ''ATokenGPvbdGVxr1b2hvZbsiqW5xWH25efTNsLJA8knL'')"

definition SYS_PROGRAM_ID :: pubkey where
  "SYS_PROGRAM_ID = projr (from_string ''11111111111111111111111111111111'')"

text \<open>The dictionary \<^verbatim>\<open>DISCRIMINATORS\<close>, in the order it is written, and a lookup by key.\<close>

definition DISCRIMINATORS :: "(string \<times> bytes) list" where
  "DISCRIMINATORS =
     [(''initialize_pool'', [95, 180, 10, 172, 84, 174, 232, 40]),
      (''add_affiliate'', [221, 239, 60, 159, 213, 45, 221, 87]),
      (''process_sale'', [103, 228, 248, 104, 78, 46, 193, 82]),
      (''remove_affiliate'', [146, 218, 182, 122, 118, 1, 69, 31]),
      (''deposit_escrow'', [226, 112, 158, 176, 178, 118, 153, 128]),
      (''withdraw_escrow'', [81, 84, 226, 128, 245, 47, 96, 104])]"

definition getitem :: "('k \<times> 'v) list \<Rightarrow> 'k \<Rightarrow> error + 'v" where
  "getitem d k = (case map_of d k of None \<Rightarrow> Inl KeyError | Some v \<Rightarrow> Inr v)"

subsection \<open>Address derivation\<close>

text \<open>
  \<^verbatim>\<open>Pubkey.find_program_address(seeds, program_id)\<close> belongs to the \<^verbatim>\<open>solders\<close>
  library, not to this repository: it hashes the seeds, a bump byte and the program
  identifier and searches for a bump that gives an address off the curve. The model takes
  that search as a parameter \<open>fpa\<close>: from a list of seeds and an owning program it gives
  the derived address with its bump, or \<open>None\<close> when no bump is found, where the library
  call raises.
\<close>

type_synonym derive = "bytes list \<Rightarrow> pubkey \<Rightarrow> (pubkey \<times> nat) option"

definition find_program_address :: "derive \<Rightarrow> bytes list \<Rightarrow> pubkey \<Rightarrow> error + (pubkey \<times> nat)" where
  "find_program_address fpa seeds prog =
     (case fpa seeds prog of None \<Rightarrow> Inl DerivationError | Some r \<Rightarrow> Inr r)"

definition find_pool_pda :: "derive \<Rightarrow> pubkey \<Rightarrow> error + (pubkey \<times> nat)" where
  "find_pool_pda fpa merchant =
     find_program_address fpa [ascii ''pool'', to_bytes merchant] PROGRAM_ID"

definition find_escrow_authority_pda :: "derive \<Rightarrow> pubkey \<Rightarrow> error + (pubkey \<times> nat)" where
  "find_escrow_authority_pda fpa pool =
     find_program_address fpa [ascii ''escrow_authority'', to_bytes pool] PROGRAM_ID"

definition find_affiliate_pda :: "derive \<Rightarrow> pubkey \<Rightarrow> pubkey \<Rightarrow> error + (pubkey \<times> nat)" where
  "find_affiliate_pda fpa pool wallet =
     find_program_address fpa [ascii ''affiliate'', to_bytes pool, to_bytes wallet] PROGRAM_ID"

definition find_associated_token_address :: "derive \<Rightarrow> pubkey \<Rightarrow> pubkey \<Rightarrow> error + pubkey" where
  "find_associated_token_address fpa owner mint =
     bind (find_program_address fpa
             [to_bytes owner, to_bytes TOKEN_PROGRAM_ID, to_bytes mint]
             ASSOCIATED_TOKEN_PROGRAM_ID)
       (\<lambda>r. Inr (fst r))"

subsection \<open>Address derivation with the state of the process explicit\<close>

text \<open>
  The four derivations once more, now with everything outside their arguments made
  explicit as a world \<open>w\<close>: the interpreter, the library's own memory, whatever a call
  could read or change. The library call takes the world and returns it, possibly
  changed; a derivation hands the world to the library call and returns the world the
  call leaves. The class attributes are assigned once, when the class is defined, and
  nothing in the repository assigns them again, so they are the constants above.
  \<open>two_runs\<close> makes a call twice in a row, the second in the world the first has left.
\<close>

type_synonym 'w library = "'w \<Rightarrow> bytes list \<Rightarrow> pubkey \<Rightarrow> (pubkey \<times> nat) option \<times> 'w"

definition find_program_address_st ::
  "'w library \<Rightarrow> bytes list \<Rightarrow> pubkey \<Rightarrow> 'w \<Rightarrow> (error + (pubkey \<times> nat)) \<times> 'w" where
  "find_program_address_st lib seeds prog w =
     (case lib w seeds prog of
        (None, w') \<Rightarrow> (Inl DerivationError, w')
      | (Some r, w') \<Rightarrow> (Inr r, w'))"

definition find_pool_pda_st ::
  "'w library \<Rightarrow> pubkey \<Rightarrow> 'w \<Rightarrow> (error + (pubkey \<times> nat)) \<times> 'w" where
  "find_pool_pda_st lib merchant w =
     find_program_address_st lib [ascii ''pool'', to_bytes merchant] PROGRAM_ID w"

definition find_escrow_authority_pda_st ::
  "'w library \<Rightarrow> pubkey \<Rightarrow> 'w \<Rightarrow> (error + (pubkey \<times> nat)) \<times> 'w" where
  "find_escrow_authority_pda_st lib pool w =
     find_program_address_st lib [ascii ''escrow_authority'', to_bytes pool] PROGRAM_ID w"

definition find_affiliate_pda_st ::
  "'w library \<Rightarrow> pubkey \<Rightarrow> pubkey \<Rightarrow> 'w \<Rightarrow> (error + (pubkey \<times> nat)) \<times> 'w" where
  "find_affiliate_pda_st lib pool wallet w =
     find_program_address_st lib
       [ascii ''affiliate'', to_bytes pool, to_bytes wallet] PROGRAM_ID w"

definition find_associated_token_address_st ::
  "'w library \<Rightarrow> pubkey \<Rightarrow> pubkey \<Rightarrow> 'w \<Rightarrow> (error + pubkey) \<times> 'w" where
  "find_associated_token_address_st lib owner mint w =
     (case find_program_address_st lib
             [to_bytes owner, to_bytes TOKEN_PROGRAM_ID, to_bytes mint]
             ASSOCIATED_TOKEN_PROGRAM_ID w of
        (r, w') \<Rightarrow> (bind r (\<lambda>p. Inr (fst p)), w'))"

definition two_runs :: "('w \<Rightarrow> 'r \<times> 'w) \<Rightarrow> 'w \<Rightarrow> 'r \<times> 'r" where
  "two_runs call w =
     (case call w of (r1, w1) \<Rightarrow> (case call w1 of (r2, w2) \<Rightarrow> (r1, r2)))"

subsection \<open>Instruction builders\<close>

text \<open>
  Each builder derives the addresses it needs, concatenates the discriminator with the
  packed arguments, lists the accounts in the order the on-chain program reads them and
  returns the instruction. Statements run in the order of the source, so the first one
  that raises decides the exception. The builders are methods, but read nothing of
  \<^verbatim>\<open>self\<close> beyond the class attributes above.
\<close>

definition initialize_pool_ix ::
  "derive \<Rightarrow> keypair \<Rightarrow> pubkey \<Rightarrow> int \<Rightarrow> int \<Rightarrow> error + instruction" where
  "initialize_pool_ix fpa merchant usdc_mint commission_rate initial_deposit =
     bind (find_pool_pda fpa (pubkey merchant)) (\<lambda>(pool_pda, _).
     bind (find_escrow_authority_pda fpa pool_pda) (\<lambda>(escrow_authority, _).
     bind (find_associated_token_address fpa (pubkey merchant) usdc_mint) (\<lambda>merchant_usdc.
     bind (find_associated_token_address fpa escrow_authority usdc_mint) (\<lambda>escrow_usdc.
     bind (getitem DISCRIMINATORS ''initialize_pool'') (\<lambda>d.
     bind (pack_H commission_rate) (\<lambda>h.
     bind (pack_Q initial_deposit) (\<lambda>q.
       Inr (Instruction PROGRAM_ID (d @ h @ q)
         [AccountMeta pool_pda False True,
          AccountMeta (pubkey merchant) True True,
          AccountMeta merchant_usdc False True,
          AccountMeta escrow_authority False False,
          AccountMeta escrow_usdc False True,
          AccountMeta usdc_mint False False,
          AccountMeta TOKEN_PROGRAM_ID False False,
          AccountMeta ASSOCIATED_TOKEN_PROGRAM_ID False False,
          AccountMeta SYS_PROGRAM_ID False False]))))))))"

definition add_affiliate_ix ::
  "derive \<Rightarrow> keypair \<Rightarrow> pubkey \<Rightarrow> str \<Rightarrow> error + instruction" where
  "add_affiliate_ix fpa merchant affiliate_wallet ref_id =
     bind (find_pool_pda fpa (pubkey merchant)) (\<lambda>(pool_pda, _).
     bind (find_affiliate_pda fpa pool_pda affiliate_wallet) (\<lambda>(affiliate_pda, _).
     bind (encode_utf8 ref_id) (\<lambda>ref_id_bytes.
     bind (getitem DISCRIMINATORS ''add_affiliate'') (\<lambda>d.
     bind (pack_I (int (length ref_id_bytes))) (\<lambda>n.
       Inr (Instruction PROGRAM_ID (d @ n @ ref_id_bytes)
         [AccountMeta pool_pda False False,
          AccountMeta affiliate_pda False True,
          AccountMeta affiliate_wallet False False,
          AccountMeta (pubkey merchant) True True,
          AccountMeta SYS_PROGRAM_ID False False]))))))"

definition process_sale_ix ::
  "derive \<Rightarrow> keypair \<Rightarrow> pubkey \<Rightarrow> pubkey \<Rightarrow> pubkey \<Rightarrow> int \<Rightarrow> error + instruction" where
  "process_sale_ix fpa authority merchant affiliate_wallet usdc_mint sale_amount =
     bind (find_pool_pda fpa merchant) (\<lambda>(pool_pda, _).
     bind (find_affiliate_pda fpa pool_pda affiliate_wallet) (\<lambda>(affiliate_pda, _).
     bind (find_escrow_authority_pda fpa pool_pda) (\<lambda>(escrow_authority, _).
     bind (find_associated_token_address fpa escrow_authority usdc_mint) (\<lambda>escrow_usdc.
     bind (find_associated_token_address fpa affiliate_wallet usdc_mint) (\<lambda>affiliate_usdc.
     bind (getitem DISCRIMINATORS ''process_sale'') (\<lambda>d.
     bind (pack_Q sale_amount) (\<lambda>q.
       Inr (Instruction PROGRAM_ID (d @ q)
         [AccountMeta pool_pda False True,
          AccountMeta affiliate_pda False True,
          AccountMeta affiliate_wallet False True,
          AccountMeta escrow_authority False False,
          AccountMeta escrow_usdc False True,
          AccountMeta affiliate_usdc False True,
          AccountMeta usdc_mint False False,
          AccountMeta (pubkey authority) True True,
          AccountMeta TOKEN_PROGRAM_ID False False,
          AccountMeta ASSOCIATED_TOKEN_PROGRAM_ID False False,
          AccountMeta SYS_PROGRAM_ID False False]))))))))"

definition remove_affiliate_ix ::
  "derive \<Rightarrow> keypair \<Rightarrow> pubkey \<Rightarrow> error + instruction" where
  "remove_affiliate_ix fpa merchant affiliate_wallet =
     bind (find_pool_pda fpa (pubkey merchant)) (\<lambda>(pool_pda, _).
     bind (find_affiliate_pda fpa pool_pda affiliate_wallet) (\<lambda>(affiliate_pda, _).
     bind (getitem DISCRIMINATORS ''remove_affiliate'') (\<lambda>d.
       Inr (Instruction PROGRAM_ID d
         [AccountMeta pool_pda False False,
          AccountMeta affiliate_pda False True,
          AccountMeta affiliate_wallet False True,
          AccountMeta (pubkey merchant) True False]))))"

definition deposit_escrow_ix ::
  "derive \<Rightarrow> keypair \<Rightarrow> pubkey \<Rightarrow> int \<Rightarrow> error + instruction" where
  "deposit_escrow_ix fpa merchant usdc_mint amount =
     bind (find_pool_pda fpa (pubkey merchant)) (\<lambda>(pool_pda, _).
     bind (find_escrow_authority_pda fpa pool_pda) (\<lambda>(escrow_authority, _).
     bind (find_associated_token_address fpa (pubkey merchant) usdc_mint) (\<lambda>merchant_usdc.
     bind (find_associated_token_address fpa escrow_authority usdc_mint) (\<lambda>escrow_usdc.
     bind (getitem DISCRIMINATORS ''deposit_escrow'') (\<lambda>d.
     bind (pack_Q amount) (\<lambda>q.
       Inr (Instruction PROGRAM_ID (d @ q)
         [AccountMeta pool_pda False False,
          AccountMeta (pubkey merchant) True True,
          AccountMeta merchant_usdc False True,
          AccountMeta escrow_authority False False,
          AccountMeta escrow_usdc False True,
          AccountMeta usdc_mint False False,
          AccountMeta TOKEN_PROGRAM_ID False False])))))))"

definition withdraw_escrow_ix ::
  "derive \<Rightarrow> keypair \<Rightarrow> pubkey \<Rightarrow> int \<Rightarrow> error + instruction" where
  "withdraw_escrow_ix fpa merchant usdc_mint amount =
     bind (find_pool_pda fpa (pubkey merchant)) (\<lambda>(pool_pda, _).
     bind (find_escrow_authority_pda fpa pool_pda) (\<lambda>(escrow_authority, _).
     bind (find_associated_token_address fpa (pubkey merchant) usdc_mint) (\<lambda>merchant_usdc.
     bind (find_associated_token_address fpa escrow_authority usdc_mint) (\<lambda>escrow_usdc.
     bind (getitem DISCRIMINATORS ''withdraw_escrow'') (\<lambda>d.
     bind (pack_Q amount) (\<lambda>q.
       Inr (Instruction PROGRAM_ID (d @ q)
         [AccountMeta pool_pda False False,
          AccountMeta (pubkey merchant) True True,
          AccountMeta merchant_usdc False True,
          AccountMeta escrow_authority False False,
          AccountMeta escrow_usdc False True,
          AccountMeta usdc_mint False False,
          AccountMeta TOKEN_PROGRAM_ID False False])))))))"

subsection \<open>The account table of the specification\<close>

text \<open>
  The specification gives, for each of the six operations, the ordered list of accounts
  with their signer (S) and writable (W) marks, and says from which seeds each derived
  address comes. \<open>spec_accounts\<close> is that table, row by row as it is written;
  \<open>spec_address\<close> resolves a role of the table to an address for given parties, following
  the derivations the specification names. Both follow the specification's words and are
  compared with the builders below.
\<close>

datatype operation =
  InitializePool | AddAffiliate | ProcessSale | RemoveAffiliate | DepositEscrow | WithdrawEscrow

datatype role =
    Pool | Merchant | MerchantToken | EscrowAuthority | EscrowToken | Mint
  | TokenProgram | AssociatedTokenProgram | SystemProgram
  | Affiliate | AffiliateWallet | AffiliateToken | Authority

text \<open>Each entry is (role, signer, writable).\<close>

fun spec_accounts :: "operation \<Rightarrow> (role \<times> bool \<times> bool) list" where
  "spec_accounts InitializePool =
     [(Pool, False, True), (Merchant, True, True), (MerchantToken, False, True),
      (EscrowAuthority, False, False), (EscrowToken, False, True), (Mint, False, False),
      (TokenProgram, False, False), (AssociatedTokenProgram, False, False),
      (SystemProgram, False, False)]"
| "spec_accounts AddAffiliate =
     [(Pool, False, False), (Affiliate, False, True), (AffiliateWallet, False, False),
      (Merchant, True, True), (SystemProgram, False, False)]"
| "spec_accounts ProcessSale =
     [(Pool, False, True), (Affiliate, False, True), (AffiliateWallet, False, True),
      (EscrowAuthority, False, False), (EscrowToken, False, True), (AffiliateToken, False, True),
      (Mint, False, False), (Authority, True, True), (TokenProgram, False, False),
      (AssociatedTokenProgram, False, False), (SystemProgram, False, False)]"
| "spec_accounts RemoveAffiliate =
     [(Pool, False, False), (Affiliate, False, True), (AffiliateWallet, False, True),
      (Merchant, True, False)]"
| "spec_accounts DepositEscrow =
     [(Pool, False, False), (Merchant, True, True), (MerchantToken, False, True),
      (EscrowAuthority, False, False), (EscrowToken, False, True), (Mint, False, False),
      (TokenProgram, False, False)]"
| "spec_accounts WithdrawEscrow =
     [(Pool, False, False), (Merchant, True, True), (MerchantToken, False, True),
      (EscrowAuthority, False, False), (EscrowToken, False, True), (Mint, False, False),
      (TokenProgram, False, False)]"

record parties =
  party_merchant :: pubkey
  party_wallet :: pubkey
  party_mint :: pubkey
  party_authority :: pubkey

definition spec_pool :: "derive \<Rightarrow> parties \<Rightarrow> error + pubkey" where
  "spec_pool fpa ps = bind (find_pool_pda fpa (party_merchant ps)) (\<lambda>r. Inr (fst r))"

definition spec_escrow_authority :: "derive \<Rightarrow> parties \<Rightarrow> error + pubkey" where
  "spec_escrow_authority fpa ps =
     bind (spec_pool fpa ps) (\<lambda>pool.
     bind (find_escrow_authority_pda fpa pool) (\<lambda>r. Inr (fst r)))"

fun spec_address :: "derive \<Rightarrow> parties \<Rightarrow> role \<Rightarrow> error + pubkey" where
  "spec_address fpa ps Pool = spec_pool fpa ps"
| "spec_address fpa ps Merchant = Inr (party_merchant ps)"
| "spec_address fpa ps MerchantToken =
     find_associated_token_address fpa (party_merchant ps) (party_mint ps)"
| "spec_address fpa ps EscrowAuthority = spec_escrow_authority fpa ps"
| "spec_address fpa ps EscrowToken =
     bind (spec_escrow_authority fpa ps) (\<lambda>ea.
     find_associated_token_address fpa ea (party_mint ps))"
| "spec_address fpa ps Mint = Inr (party_mint ps)"
| "spec_address fpa ps TokenProgram = Inr TOKEN_PROGRAM_ID"
| "spec_address fpa ps AssociatedTokenProgram = Inr ASSOCIATED_TOKEN_PROGRAM_ID"
| "spec_address fpa ps SystemProgram = Inr SYS_PROGRAM_ID"
| "spec_address fpa ps Affiliate =
     bind (spec_pool fpa ps) (\<lambda>pool.
     bind (find_affiliate_pda fpa pool (party_wallet ps)) (\<lambda>r. Inr (fst r)))"
| "spec_address fpa ps AffiliateWallet = Inr (party_wallet ps)"
| "spec_address fpa ps AffiliateToken =
     find_associated_token_address fpa (party_wallet ps) (party_mint ps)"
| "spec_address fpa ps Authority = Inr (party_authority ps)"

text \<open>
  An instruction matches the table of an operation when its account list has, slot by
  slot, the address of the role and the two marks of the table: same length, same order.
\<close>

definition matches_table :: "derive \<Rightarrow> parties \<Rightarrow> operation \<Rightarrow> instruction \<Rightarrow> bool" where
  "matches_table fpa ps opn ix \<longleftrightarrow>
     map (\<lambda>a. (Inr (meta_pubkey a), is_signer a, is_writable a)) (accounts ix) =
     map (\<lambda>(r, s, w). (spec_address fpa ps r, s, w)) (spec_accounts opn)"

text \<open>
  Reading an argument payload back: \<^verbatim>\<open>struct.unpack("<HQ", payload)\<close>, a little-endian
  u16 followed by a little-endian u64, which needs exactly ten bytes.
\<close>

definition unpack_HQ :: "bytes \<Rightarrow> error + (int \<times> int)" where
  "unpack_HQ bs =
     (if length bs = 10 then Inr (le_value (take 2 bs), le_value (drop 2 bs)) else Inl StructError)"

subsection \<open>Concrete parties and a concrete derivation\<close>

text \<open>
  Inputs on which the theorems below are exercised: a derivation that always finds an
  address (the first 32 bytes of the seeds, last seed first, followed by the program
  identifier) with bump 255, and four distinct 32-byte addresses.
\<close>

definition sample_address :: "bytes list \<Rightarrow> pubkey \<Rightarrow> pubkey" where
  "sample_address seeds prog = Pubkey (take 32 (concat (rev seeds) @ to_bytes prog))"

definition sample_derive :: derive where
  "sample_derive seeds prog = Some (sample_address seeds prog, 255)"


definition drifting_library :: "nat library" where
  "drifting_library n seeds prog = (Some (prog, n), Suc n)"

definition sample_merchant :: keypair where
  "sample_merchant = \<lparr>secret = replicate 32 1, pubkey = Pubkey (replicate 32 2)\<rparr>"

definition sample_authority :: keypair where
  "sample_authority = \<lparr>secret = replicate 32 3, pubkey = Pubkey (replicate 32 4)\<rparr>"

definition sample_wallet :: pubkey where
  "sample_wallet = Pubkey (replicate 32 5)"

definition sample_mint :: pubkey where
  "sample_mint = Pubkey (replicate 32 6)"

definition sample_parties :: parties where
  "sample_parties =
     \<lparr>party_merchant = pubkey sample_merchant, party_wallet = sample_wallet,
      party_mint = sample_mint, party_authority = pubkey sample_authority\<rparr>"

section \<open>The interface-description fix-up\<close>

text \<open>
  \<^verbatim>\<open>sdk/genpy/main.py\<close> rewrites the accounts of an interface description that
  \<^verbatim>\<open>json.loads\<close> has read. A JSON value is a \<open>json\<close>; a Python dictionary keeps the
  order of insertion and has each key once, so it is an association list. Strings are
  taken as their UTF-8 bytes: the dot of \<^verbatim>\<open>split('.')\<close> is a single byte that occurs in
  no longer sequence, so splitting bytes and splitting code points agree.
\<close>

datatype json =
    JNull
  | JBool bool
  | JNum real
  | JStr string
  | JList "json list"
  | JDict "(string \<times> json) list"

text \<open>\<^verbatim>\<open>key in value\<close> for a string key: defined on dictionaries, lists and strings.\<close>

fun py_in :: "string \<Rightarrow> json \<Rightarrow> error + bool" where
  "py_in k (JDict d) = Inr (k \<in> set (map fst d))"
| "py_in k (JList xs) = Inr (JStr k \<in> set xs)"
| "py_in k (JStr s) = Inr (sublist k s)"
| "py_in k JNull = Inl TypeError"
| "py_in k (JBool b) = Inl TypeError"
| "py_in k (JNum n) = Inl TypeError"

text \<open>\<^verbatim>\<open>value[key]\<close> for a string key: only a dictionary can be indexed by a string.\<close>

fun py_getitem :: "json \<Rightarrow> string \<Rightarrow> error + json" where
  "py_getitem (JDict d) k = getitem d k"
| "py_getitem v k = Inl TypeError"

text \<open>
  \<^verbatim>\<open>for item in value\<close>: the elements of a list, the keys of a dictionary, the
  characters of a string.
\<close>

fun py_iter :: "json \<Rightarrow> error + json list" where
  "py_iter (JList xs) = Inr xs"
| "py_iter (JDict d) = Inr (map (\<lambda>p. JStr (fst p)) d)"
| "py_iter (JStr s) = Inr (map (\<lambda>c. JStr [c]) s)"
| "py_iter JNull = Inl TypeError"
| "py_iter (JBool b) = Inl TypeError"
| "py_iter (JNum n) = Inl TypeError"

text \<open>\<^verbatim>\<open>dict.setdefault(k, v)\<close> and \<^verbatim>\<open>dict.pop(k)\<close>, which raises on a missing key.\<close>

definition setdefault :: "string \<Rightarrow> json \<Rightarrow> (string \<times> json) list \<Rightarrow> (string \<times> json) list" where
  "setdefault k v d = (if k \<in> set (map fst d) then d else d @ [(k, v)])"

fun py_pop :: "json \<Rightarrow> string \<Rightarrow> error + json" where
  "py_pop (JDict d) k =
     (if k \<in> set (map fst d) then Inr (JDict (AList.delete k d)) else Inl KeyError)"
| "py_pop v k = Inl AttributeError"

text \<open>\<^verbatim>\<open>s.split(sep)\<close> for a one-character separator; the result is never empty.\<close>

fun split_str :: "char \<Rightarrow> string \<Rightarrow> string list" where
  "split_str sep [] = [[]]"
| "split_str sep (c # cs) =
     (if c = sep then [] # split_str sep cs
      else (case split_str sep cs of [] \<Rightarrow> [[c]] | w # ws \<Rightarrow> (c # w) # ws))"

text \<open>\<^verbatim>\<open>seed['path'].split('.')[0]\<close>: only a string has \<^verbatim>\<open>split\<close>.\<close>

definition first_component :: "json \<Rightarrow> error + json" where
  "first_component p =
     (case p of
        JStr s \<Rightarrow> (case split_str CHR ''.'' s of [] \<Rightarrow> Inl IndexError | w # ws \<Rightarrow> Inr (JStr w))
      | _ \<Rightarrow> Inl AttributeError)"

text \<open>
  The body of the loop over the seeds. \<^verbatim>\<open>seed.get\<close> exists on dictionaries only; the
  path is replaced first, then the \<^verbatim>\<open>account\<close> entry is dropped whatever the kind.
\<close>

definition fix_seed :: "json \<Rightarrow> error + json" where
  "fix_seed seed =
     (case seed of
        JDict d \<Rightarrow>
          bind (if map_of d ''kind'' = Some (JStr ''account'') \<and> ''path'' \<in> set (map fst d)
                then bind (getitem d ''path'') (\<lambda>p.
                     bind (first_component p) (\<lambda>p'. Inr (AList.update ''path'' p' d)))
                else Inr d)
            (\<lambda>d'. Inr (JDict (AList.delete ''account'' d')))
      | _ \<Rightarrow> Inl AttributeError)"

fun fix_seeds_loop :: "json list \<Rightarrow> error + json list" where
  "fix_seeds_loop [] = Inr []"
| "fix_seeds_loop (seed # rest) =
     bind (fix_seed seed) (\<lambda>seed'.
     bind (fix_seeds_loop rest) (\<lambda>rest'. Inr (seed' # rest')))"

text \<open>
  The loop changes each seed in place, so a list of seeds holds the changed seeds
  afterwards. Iterating a dictionary or a string yields strings, on which the body raises;
  when there is nothing to iterate the value stays as it is.
\<close>

definition fix_seeds :: "json \<Rightarrow> error + json" where
  "fix_seeds seeds =
     bind (py_iter seeds) (\<lambda>items.
     bind (fix_seeds_loop items) (\<lambda>items'.
       Inr (case seeds of JList xs \<Rightarrow> JList items' | _ \<Rightarrow> seeds)))"

text \<open>The test on the program override: a dictionary with both keys.\<close>

definition program_ok :: "json \<Rightarrow> bool" where
  "program_ok prog =
     (case prog of
        JDict d \<Rightarrow> ''kind'' \<in> set (map fst d) \<and> ''value'' \<in> set (map fst d)
      | _ \<Rightarrow> False)"

text \<open>The changed seeds are those the derivation description refers to.\<close>

fun with_seeds :: "json \<Rightarrow> json \<Rightarrow> json" where
  "with_seeds (JDict d) seeds = JDict (AList.update ''seeds'' seeds d)"
| "with_seeds v seeds = v"

definition fix_pda :: "json \<Rightarrow> error + json" where
  "fix_pda pda =
     bind (py_in ''seeds'' pda) (\<lambda>has_seeds.
     bind (if has_seeds
           then bind (py_getitem pda ''seeds'') (\<lambda>seeds.
                bind (fix_seeds seeds) (\<lambda>seeds'. Inr (with_seeds pda seeds')))
           else Inr pda) (\<lambda>pda1.
     bind (py_in ''program'' pda1) (\<lambda>has_program.
       if has_program
       then bind (py_getitem pda1 ''program'') (\<lambda>prog.
              if \<not> program_ok prog then py_pop pda1 ''program'' else Inr pda1)
       else Inr pda1)))"

definition allowed_keys :: "string list" where
  "allowed_keys = [''name'', ''writable'', ''signer'', ''pda'', ''address'']"

definition fix_account :: "json \<Rightarrow> error + json" where
  "fix_account account =
     (case account of
        JStr s \<Rightarrow> Inr account
      | JDict items \<Rightarrow>
          (let account1 = filter (\<lambda>(k, v). k \<in> set allowed_keys) items;
               account2 = setdefault ''writable'' (JBool False) account1;
               account3 = setdefault ''signer'' (JBool False) account2
           in if ''pda'' \<in> set (map fst account3)
              then bind (getitem account3 ''pda'') (\<lambda>pda.
                   bind (fix_pda pda) (\<lambda>pda'.
                     Inr (JDict (AList.update ''pda'' pda' account3))))
              else Inr (JDict account3))
      | _ \<Rightarrow> Inl AttributeError)"

subsection \<open>What the fix-up promises\<close>

text \<open>
  The specification's words for the fix-up, as relations between the account that goes in
  and the account that comes out. A seed is fixed when the result is the same dictionary
  without its \<^verbatim>\<open>account\<close> entry and, for a seed of kind \<^verbatim>\<open>account\<close> whose path is a
  string, with the path cut at its first dot; every other entry is as before.
\<close>

definition seed_fixed :: "json \<Rightarrow> json \<Rightarrow> bool" where
  "seed_fixed seed seed' \<longleftrightarrow>
     (\<exists>d d'. seed = JDict d \<and> seed' = JDict d' \<and>
        ''account'' \<notin> set (map fst d') \<and>
        (\<forall>s. map_of d ''kind'' = Some (JStr ''account'') \<and> map_of d ''path'' = Some (JStr s) \<longrightarrow>
             map_of d' ''path'' = Some (JStr (takeWhile (\<lambda>c. c \<noteq> CHR ''.'') s))) \<and>
        (map_of d ''kind'' \<noteq> Some (JStr ''account'') \<longrightarrow> map_of d' ''path'' = map_of d ''path'') \<and>
        (\<forall>k. k \<noteq> ''account'' \<and> k \<noteq> ''path'' \<longrightarrow> map_of d' k = map_of d k))"

text \<open>
  An account of the shape an interface description has: its derivation description, when
  there is one, is a dictionary; the seeds, when there are any, are a list of
  dictionaries; and the path of a seed of kind \<^verbatim>\<open>account\<close> is a string.
\<close>

definition seed_shaped :: "json \<Rightarrow> bool" where
  "seed_shaped seed =
     (case seed of
        JDict d \<Rightarrow>
          (if map_of d ''kind'' = Some (JStr ''account'')
           then (case map_of d ''path'' of None \<Rightarrow> True | Some (JStr s) \<Rightarrow> True | Some _ \<Rightarrow> False)
           else True)
      | _ \<Rightarrow> False)"

definition pda_shaped :: "json \<Rightarrow> bool" where
  "pda_shaped pda =
     (case pda of
        JDict d \<Rightarrow>
          (case map_of d ''seeds'' of
             None \<Rightarrow> True
           | Some (JList seeds) \<Rightarrow> list_all seed_shaped seeds
           | Some _ \<Rightarrow> False)
      | _ \<Rightarrow> False)"

definition account_shaped :: "(string \<times> json) list \<Rightarrow> bool" where
  "account_shaped items =
     (case map_of items ''pda'' of None \<Rightarrow> True | Some pda \<Rightarrow> pda_shaped pda)"

text \<open>The account after the filter and the two defaults, before the derivation is looked at.\<close>

definition defaulted :: "(string \<times> json) list \<Rightarrow> (string \<times> json) list" where
  "defaulted items =
     setdefault ''signer'' (JBool False)
       (setdefault ''writable'' (JBool False)
         (filter (\<lambda>(k, v). k \<in> set allowed_keys) items))"

text \<open>An account as the interface description of the program has it, with two seeds.\<close>

definition sample_account :: "(string \<times> json) list" where
  "sample_account =
     [(''name'', JStr ''affiliate_account''),
      (''writable'', JBool True),
      (''docs'', JList [JStr ''the affiliate'']),
      (''pda'', JDict
         [(''seeds'', JList
            [JDict [(''kind'', JStr ''const''), (''value'', JList [JNum 97, JNum 102])],
             JDict [(''kind'', JStr ''account''), (''path'', JStr ''merchant_pool.merchant''),
                    (''account'', JStr ''MerchantPool'')]]),
          (''program'', JDict [(''kind'', JStr ''const'')])])]"

text \<open>The same account with a program override that has both a kind and a value.\<close>

definition sample_account_override :: "(string \<times> json) list" where
  "sample_account_override =
     [(''name'', JStr ''escrow_usdc''),
      (''signer'', JBool False),
      (''pda'', JDict
         [(''seeds'', JList
            [JDict [(''kind'', JStr ''account''), (''path'', JStr ''escrow_authority'')],
             JDict [(''kind'', JStr ''account''), (''path'', JStr ''usdc_mint'')]]),
          (''program'', JDict [(''kind'', JStr ''const''), (''value'', JList [JNum 140, JNum 151])])])]"

section \<open>Properties of the contract client\<close>

subsection \<open>Sequencing and packing\<close>

lemma bind_Inr [simp]: "bind (Inr x) f = f x"
  by (simp add: bind_def)

lemma bind_Inl [simp]: "bind (Inl e) f = Inl e"
  by (simp add: bind_def)

lemma bind_eq_Inr: "bind m f = Inr y \<longleftrightarrow> (\<exists>x. m = Inr x \<and> f x = Inr y)"
  by (cases m) simp_all

lemma bind_prod_eq_Inr:
  "bind m (\<lambda>(a, b). f a b) = Inr y \<longleftrightarrow> (\<exists>a b. m = Inr (a, b) \<and> f a b = Inr y)"
  by (cases m) auto

lemma pack_le_eq_Inr: "pack_le n v = Inr bs \<longleftrightarrow> 0 \<le> v \<and> v < 256 ^ n \<and> bs = le_bytes n v"
  by (auto simp: pack_le_def)

lemma length_le_bytes [simp]: "length (le_bytes n v) = n"
  by (induction n arbitrary: v) simp_all

lemma le_value_le_bytes: "0 \<le> v \<Longrightarrow> v < 256 ^ n \<Longrightarrow> le_value (le_bytes n v) = v"
proof (induction n arbitrary: v)
  case 0
  then show ?case by simp
next
  case (Suc n)
  have "v div 256 < 256 ^ n"
    using Suc.prems by (simp add: div_less_iff_less_mult mult.commute)
  moreover have "0 \<le> v div 256"
    using Suc.prems by simp
  ultimately have "le_value (le_bytes n (v div 256)) = v div 256"
    by (rule Suc.IH [rotated])
  moreover have "uint (word_of_int (v mod 256) :: byte) = v mod 256"
    by (simp add: uint_word_of_int take_bit_eq_mod)
  ultimately show ?case by simp
qed

lemma getitem_DISCRIMINATORS:
  "getitem DISCRIMINATORS ''initialize_pool'' = Inr [95, 180, 10, 172, 84, 174, 232, 40]"
  "getitem DISCRIMINATORS ''add_affiliate'' = Inr [221, 239, 60, 159, 213, 45, 221, 87]"
  "getitem DISCRIMINATORS ''process_sale'' = Inr [103, 228, 248, 104, 78, 46, 193, 82]"
  "getitem DISCRIMINATORS ''remove_affiliate'' = Inr [146, 218, 182, 122, 118, 1, 69, 31]"
  "getitem DISCRIMINATORS ''deposit_escrow'' = Inr [226, 112, 158, 176, 178, 118, 153, 128]"
  "getitem DISCRIMINATORS ''withdraw_escrow'' = Inr [81, 84, 226, 128, 245, 47, 96, 104]"
  by (simp_all add: getitem_def DISCRIMINATORS_def)

subsection \<open>What each builder returns\<close>

lemmas builder_simps =
  bind_prod_eq_Inr bind_eq_Inr getitem_DISCRIMINATORS pack_H_def pack_I_def pack_Q_def pack_le_eq_Inr

lemma initialize_pool_ix_eq_Inr:
  "initialize_pool_ix fpa merchant usdc_mint commission_rate initial_deposit = Inr ix \<longleftrightarrow>
     (\<exists>pool_pda b1 escrow_authority b2 merchant_usdc escrow_usdc.
        find_pool_pda fpa (pubkey merchant) = Inr (pool_pda, b1) \<and>
        find_escrow_authority_pda fpa pool_pda = Inr (escrow_authority, b2) \<and>
        find_associated_token_address fpa (pubkey merchant) usdc_mint = Inr merchant_usdc \<and>
        find_associated_token_address fpa escrow_authority usdc_mint = Inr escrow_usdc \<and>
        0 \<le> commission_rate \<and> commission_rate < 256 ^ 2 \<and>
        0 \<le> initial_deposit \<and> initial_deposit < 256 ^ 8 \<and>
        ix = Instruction PROGRAM_ID
               ([95, 180, 10, 172, 84, 174, 232, 40] @
                le_bytes 2 commission_rate @ le_bytes 8 initial_deposit)
               [AccountMeta pool_pda False True,
                AccountMeta (pubkey merchant) True True,
                AccountMeta merchant_usdc False True,
                AccountMeta escrow_authority False False,
                AccountMeta escrow_usdc False True,
                AccountMeta usdc_mint False False,
                AccountMeta TOKEN_PROGRAM_ID False False,
                AccountMeta ASSOCIATED_TOKEN_PROGRAM_ID False False,
                AccountMeta SYS_PROGRAM_ID False False])"
  by (simp add: initialize_pool_ix_def builder_simps del: le_bytes.simps) blast

lemma add_affiliate_ix_eq_Inr:
  "add_affiliate_ix fpa merchant affiliate_wallet ref_id = Inr ix \<longleftrightarrow>
     (\<exists>pool_pda b1 affiliate_pda b2 ref_id_bytes.
        find_pool_pda fpa (pubkey merchant) = Inr (pool_pda, b1) \<and>
        find_affiliate_pda fpa pool_pda affiliate_wallet = Inr (affiliate_pda, b2) \<and>
        encode_utf8 ref_id = Inr ref_id_bytes \<and>
        int (length ref_id_bytes) < 256 ^ 4 \<and>
        ix = Instruction PROGRAM_ID
               ([221, 239, 60, 159, 213, 45, 221, 87] @
                le_bytes 4 (int (length ref_id_bytes)) @ ref_id_bytes)
               [AccountMeta pool_pda False False,
                AccountMeta affiliate_pda False True,
                AccountMeta affiliate_wallet False False,
                AccountMeta (pubkey merchant) True True,
                AccountMeta SYS_PROGRAM_ID False False])"
  by (simp add: add_affiliate_ix_def builder_simps del: le_bytes.simps) blast

lemma process_sale_ix_eq_Inr:
  "process_sale_ix fpa authority merchant affiliate_wallet usdc_mint sale_amount = Inr ix \<longleftrightarrow>
     (\<exists>pool_pda b1 affiliate_pda b2 escrow_authority b3 escrow_usdc affiliate_usdc.
        find_pool_pda fpa merchant = Inr (pool_pda, b1) \<and>
        find_affiliate_pda fpa pool_pda affiliate_wallet = Inr (affiliate_pda, b2) \<and>
        find_escrow_authority_pda fpa pool_pda = Inr (escrow_authority, b3) \<and>
        find_associated_token_address fpa escrow_authority usdc_mint = Inr escrow_usdc \<and>
        find_associated_token_address fpa affiliate_wallet usdc_mint = Inr affiliate_usdc \<and>
        0 \<le> sale_amount \<and> sale_amount < 256 ^ 8 \<and>
        ix = Instruction PROGRAM_ID
               ([103, 228, 248, 104, 78, 46, 193, 82] @ le_bytes 8 sale_amount)
               [AccountMeta pool_pda False True,
                AccountMeta affiliate_pda False True,
                AccountMeta affiliate_wallet False True,
                AccountMeta escrow_authority False False,
                AccountMeta escrow_usdc False True,
                AccountMeta affiliate_usdc False True,
                AccountMeta usdc_mint False False,
                AccountMeta (pubkey authority) True True,
                AccountMeta TOKEN_PROGRAM_ID False False,
                AccountMeta ASSOCIATED_TOKEN_PROGRAM_ID False False,
                AccountMeta SYS_PROGRAM_ID False False])"
  by (simp add: process_sale_ix_def builder_simps del: le_bytes.simps) blast

lemma remove_affiliate_ix_eq_Inr:
  "remove_affiliate_ix fpa merchant affiliate_wallet = Inr ix \<longleftrightarrow>
     (\<exists>pool_pda b1 affiliate_pda b2.
        find_pool_pda fpa (pubkey merchant) = Inr (pool_pda, b1) \<and>
        find_affiliate_pda fpa pool_pda affiliate_wallet = Inr (affiliate_pda, b2) \<and>
        ix = Instruction PROGRAM_ID [146, 218, 182, 122, 118, 1, 69, 31]
               [AccountMeta pool_pda False False,
                AccountMeta affiliate_pda False True,
                AccountMeta affiliate_wallet False True,
                AccountMeta (pubkey merchant) True False])"
  by (simp add: remove_affiliate_ix_def builder_simps) blast

lemma deposit_escrow_ix_eq_Inr:
  "deposit_escrow_ix fpa merchant usdc_mint amount = Inr ix \<longleftrightarrow>
     (\<exists>pool_pda b1 escrow_authority b2 merchant_usdc escrow_usdc.
        find_pool_pda fpa (pubkey merchant) = Inr (pool_pda, b1) \<and>
        find_escrow_authority_pda fpa pool_pda = Inr (escrow_authority, b2) \<and>
        find_associated_token_address fpa (pubkey merchant) usdc_mint = Inr merchant_usdc \<and>
        find_associated_token_address fpa escrow_authority usdc_mint = Inr escrow_usdc \<and>
        0 \<le> amount \<and> amount < 256 ^ 8 \<and>
        ix = Instruction PROGRAM_ID
               ([226, 112, 158, 176, 178, 118, 153, 128] @ le_bytes 8 amount)
               [AccountMeta pool_pda False False,
                AccountMeta (pubkey merchant) True True,
                AccountMeta merchant_usdc False True,
                AccountMeta escrow_authority False False,
                AccountMeta escrow_usdc False True,
                AccountMeta usdc_mint False False,
                AccountMeta TOKEN_PROGRAM_ID False False])"
  by (simp add: deposit_escrow_ix_def builder_simps del: le_bytes.simps) blast

lemma withdraw_escrow_ix_eq_Inr:
  "withdraw_escrow_ix fpa merchant usdc_mint amount = Inr ix \<longleftrightarrow>
     (\<exists>pool_pda b1 escrow_authority b2 merchant_usdc escrow_usdc.
        find_pool_pda fpa (pubkey merchant) = Inr (pool_pda, b1) \<and>
        find_escrow_authority_pda fpa pool_pda = Inr (escrow_authority, b2) \<and>
        find_associated_token_address fpa (pubkey merchant) usdc_mint = Inr merchant_usdc \<and>
        find_associated_token_address fpa escrow_authority usdc_mint = Inr escrow_usdc \<and>
        0 \<le> amount \<and> amount < 256 ^ 8 \<and>
        ix = Instruction PROGRAM_ID
               ([81, 84, 226, 128, 245, 47, 96, 104] @ le_bytes 8 amount)
               [AccountMeta pool_pda False False,
                AccountMeta (pubkey merchant) True True,
                AccountMeta merchant_usdc False True,
                AccountMeta escrow_authority False False,
                AccountMeta escrow_usdc False True,
                AccountMeta usdc_mint False False,
                AccountMeta TOKEN_PROGRAM_ID False False])"
  by (simp add: withdraw_escrow_ix_def builder_simps del: le_bytes.simps) blast

subsection \<open>The builders against the account table\<close>

lemma accounts_Instruction [simp]: "accounts (Instruction p d accs) = accs"
  by (simp add: Instruction_def)

lemma data_Instruction [simp]: "data (Instruction p d accs) = d"
  by (simp add: Instruction_def)

lemma program_id_Instruction [simp]: "program_id (Instruction p d accs) = p"
  by (simp add: Instruction_def)

lemma AccountMeta_sel [simp]:
  "meta_pubkey (AccountMeta pk s w) = pk"
  "is_signer (AccountMeta pk s w) = s"
  "is_writable (AccountMeta pk s w) = w"
  by (simp_all add: AccountMeta_def)

lemma initialize_pool_ix_table:
  assumes "initialize_pool_ix fpa merchant usdc_mint commission_rate initial_deposit = Inr ix"
    and "party_merchant ps = pubkey merchant" and "party_mint ps = usdc_mint"
  shows "matches_table fpa ps InitializePool ix"
  using assms unfolding initialize_pool_ix_eq_Inr
  by (auto simp: matches_table_def spec_pool_def spec_escrow_authority_def)

lemma add_affiliate_ix_table:
  assumes "add_affiliate_ix fpa merchant affiliate_wallet ref_id = Inr ix"
    and "party_merchant ps = pubkey merchant" and "party_wallet ps = affiliate_wallet"
  shows "matches_table fpa ps AddAffiliate ix"
  using assms unfolding add_affiliate_ix_eq_Inr
  by (auto simp: matches_table_def spec_pool_def spec_escrow_authority_def)

lemma process_sale_ix_table:
  assumes "process_sale_ix fpa authority merchant affiliate_wallet usdc_mint sale_amount = Inr ix"
    and "party_merchant ps = merchant" and "party_wallet ps = affiliate_wallet"
    and "party_mint ps = usdc_mint" and "party_authority ps = pubkey authority"
  shows "matches_table fpa ps ProcessSale ix"
  using assms unfolding process_sale_ix_eq_Inr
  by (auto simp: matches_table_def spec_pool_def spec_escrow_authority_def)

lemma remove_affiliate_ix_table:
  assumes "remove_affiliate_ix fpa merchant affiliate_wallet = Inr ix"
    and "party_merchant ps = pubkey merchant" and "party_wallet ps = affiliate_wallet"
  shows "matches_table fpa ps RemoveAffiliate ix"
  using assms unfolding remove_affiliate_ix_eq_Inr
  by (auto simp: matches_table_def spec_pool_def spec_escrow_authority_def)

lemma deposit_escrow_ix_table:
  assumes "deposit_escrow_ix fpa merchant usdc_mint amount = Inr ix"
    and "party_merchant ps = pubkey merchant" and "party_mint ps = usdc_mint"
  shows "matches_table fpa ps DepositEscrow ix"
  using assms unfolding deposit_escrow_ix_eq_Inr
  by (auto simp: matches_table_def spec_pool_def spec_escrow_authority_def)

lemma withdraw_escrow_ix_table:
  assumes "withdraw_escrow_ix fpa merchant usdc_mint amount = Inr ix"
    and "party_merchant ps = pubkey merchant" and "party_mint ps = usdc_mint"
  shows "matches_table fpa ps WithdrawEscrow ix"
  using assms unfolding withdraw_escrow_ix_eq_Inr
  by (auto simp: matches_table_def spec_pool_def spec_escrow_authority_def)

text \<open>The sizes of the rows, and the last account of remove-affiliate.\<close>

lemma spec_accounts_sizes:
  "map (\<lambda>opn. length (spec_accounts opn))
     [InitializePool, AddAffiliate, ProcessSale, RemoveAffiliate, DepositEscrow, WithdrawEscrow] =
     [9, 5, 11, 4, 7, 7]"
  "last (spec_accounts RemoveAffiliate) = (Merchant, True, False)"
  by simp_all

lemma matches_table_length:
  "matches_table fpa ps opn ix \<Longrightarrow> length (accounts ix) = length (spec_accounts opn)"
  unfolding matches_table_def by (drule arg_cong [where f = length]) simp

subsection \<open>The builders on the concrete parties\<close>

lemma sample_find_program_address:
  "find_program_address sample_derive seeds prog = Inr (sample_address seeds prog, 255)"
  by (simp add: find_program_address_def sample_derive_def)

lemma sample_initialize_pool_ix:
  "0 \<le> cr \<Longrightarrow> cr < 65536 \<Longrightarrow> 0 \<le> dep \<Longrightarrow> dep < 18446744073709551616 \<Longrightarrow>
   \<exists>ix. initialize_pool_ix sample_derive sample_merchant sample_mint cr dep = Inr ix"
  by (simp add: initialize_pool_ix_eq_Inr find_pool_pda_def find_escrow_authority_pda_def
      find_associated_token_address_def sample_find_program_address del: le_bytes.simps)

lemma sample_add_affiliate_ix:
  "\<exists>ix. add_affiliate_ix sample_derive sample_merchant sample_wallet (str_of ''AFF001'') = Inr ix"
  by (simp add: add_affiliate_ix_eq_Inr find_pool_pda_def find_affiliate_pda_def
      sample_find_program_address str_of_def utf8_char_def del: le_bytes.simps)

lemma sample_process_sale_ix:
  "0 \<le> a \<Longrightarrow> a < 18446744073709551616 \<Longrightarrow>
   \<exists>ix. process_sale_ix sample_derive sample_authority (pubkey sample_merchant) sample_wallet sample_mint a = Inr ix"
  by (simp add: process_sale_ix_eq_Inr find_pool_pda_def find_escrow_authority_pda_def find_affiliate_pda_def
      find_associated_token_address_def sample_find_program_address del: le_bytes.simps)

lemma sample_remove_affiliate_ix:
  "\<exists>ix. remove_affiliate_ix sample_derive sample_merchant sample_wallet = Inr ix"
  by (simp add: remove_affiliate_ix_eq_Inr find_pool_pda_def find_affiliate_pda_def
      sample_find_program_address)

lemma sample_deposit_escrow_ix:
  "0 \<le> a \<Longrightarrow> a < 18446744073709551616 \<Longrightarrow>
   \<exists>ix. deposit_escrow_ix sample_derive sample_merchant sample_mint a = Inr ix"
  by (simp add: deposit_escrow_ix_eq_Inr find_pool_pda_def find_escrow_authority_pda_def
      find_associated_token_address_def sample_find_program_address del: le_bytes.simps)

lemma sample_withdraw_escrow_ix:
  "0 \<le> a \<Longrightarrow> a < 18446744073709551616 \<Longrightarrow>
   \<exists>ix. withdraw_escrow_ix sample_derive sample_merchant sample_mint a = Inr ix"
  by (simp add: withdraw_escrow_ix_eq_Inr find_pool_pda_def find_escrow_authority_pda_def
      find_associated_token_address_def sample_find_program_address del: le_bytes.simps)

text \<open>
  Claim C1. For each of the six builders and for every input on which the builder returns,
  the account list of the returned instruction is the row of the specification's table for
  that operation: the same number of accounts, in the same order, each slot holding the
  address of its role with the signer and writable marks of the table. Initialize-pool has
  nine accounts, remove-affiliate four, the last one the merchant, signer and not writable.
\<close>

theorem account_lists_match_table:
  "(initialize_pool_ix fpa merchant usdc_mint commission_rate initial_deposit = Inr ix1 \<longrightarrow>
      matches_table fpa \<lparr>party_merchant = pubkey merchant, party_wallet = w1,
        party_mint = usdc_mint, party_authority = a1\<rparr> InitializePool ix1) \<and>
   (add_affiliate_ix fpa merchant affiliate_wallet ref_id = Inr ix2 \<longrightarrow>
      matches_table fpa \<lparr>party_merchant = pubkey merchant, party_wallet = affiliate_wallet,
        party_mint = m2, party_authority = a2\<rparr> AddAffiliate ix2) \<and>
   (process_sale_ix fpa authority merchant_key affiliate_wallet usdc_mint sale_amount = Inr ix3 \<longrightarrow>
      matches_table fpa \<lparr>party_merchant = merchant_key, party_wallet = affiliate_wallet,
        party_mint = usdc_mint, party_authority = pubkey authority\<rparr> ProcessSale ix3) \<and>
   (remove_affiliate_ix fpa merchant affiliate_wallet = Inr ix4 \<longrightarrow>
      matches_table fpa \<lparr>party_merchant = pubkey merchant, party_wallet = affiliate_wallet,
        party_mint = m4, party_authority = a4\<rparr> RemoveAffiliate ix4) \<and>
   (deposit_escrow_ix fpa merchant usdc_mint amount = Inr ix5 \<longrightarrow>
      matches_table fpa \<lparr>party_merchant = pubkey merchant, party_wallet = w5,
        party_mint = usdc_mint, party_authority = a5\<rparr> DepositEscrow ix5) \<and>
   (withdraw_escrow_ix fpa merchant usdc_mint amount = Inr ix6 \<longrightarrow>
      matches_table fpa \<lparr>party_merchant = pubkey merchant, party_wallet = w6,
        party_mint = usdc_mint, party_authority = a6\<rparr> WithdrawEscrow ix6)"
  by (simp add: initialize_pool_ix_table add_affiliate_ix_table process_sale_ix_table
      remove_affiliate_ix_table deposit_escrow_ix_table withdraw_escrow_ix_table)

theorem account_lists_match_table_witness:
  "(\<exists>ix. initialize_pool_ix sample_derive sample_merchant sample_mint 500 1000000 = Inr ix \<and>
      matches_table sample_derive sample_parties InitializePool ix) \<and>
   (\<exists>ix. add_affiliate_ix sample_derive sample_merchant sample_wallet (str_of ''AFF001'') = Inr ix \<and>
      matches_table sample_derive sample_parties AddAffiliate ix) \<and>
   (\<exists>ix. process_sale_ix sample_derive sample_authority (pubkey sample_merchant) sample_wallet
           sample_mint 50000000 = Inr ix \<and>
      matches_table sample_derive sample_parties ProcessSale ix) \<and>
   (\<exists>ix. remove_affiliate_ix sample_derive sample_merchant sample_wallet = Inr ix \<and>
      matches_table sample_derive sample_parties RemoveAffiliate ix) \<and>
   (\<exists>ix. deposit_escrow_ix sample_derive sample_merchant sample_mint 50000000 = Inr ix \<and>
      matches_table sample_derive sample_parties DepositEscrow ix) \<and>
   (\<exists>ix. withdraw_escrow_ix sample_derive sample_merchant sample_mint 50000000 = Inr ix \<and>
      matches_table sample_derive sample_parties WithdrawEscrow ix)"
proof -
  obtain ix1 where 1: "initialize_pool_ix sample_derive sample_merchant sample_mint 500 1000000 = Inr ix1"
    using sample_initialize_pool_ix [of 500 1000000] by auto
  obtain ix2 where 2: "add_affiliate_ix sample_derive sample_merchant sample_wallet (str_of ''AFF001'') = Inr ix2"
    using sample_add_affiliate_ix by auto
  obtain ix3 where 3: "process_sale_ix sample_derive sample_authority (pubkey sample_merchant)
      sample_wallet sample_mint 50000000 = Inr ix3"
    using sample_process_sale_ix [of 50000000] by auto
  obtain ix4 where 4: "remove_affiliate_ix sample_derive sample_merchant sample_wallet = Inr ix4"
    using sample_remove_affiliate_ix by auto
  obtain ix5 where 5: "deposit_escrow_ix sample_derive sample_merchant sample_mint 50000000 = Inr ix5"
    using sample_deposit_escrow_ix [of 50000000] by auto
  obtain ix6 where 6: "withdraw_escrow_ix sample_derive sample_merchant sample_mint 50000000 = Inr ix6"
    using sample_withdraw_escrow_ix [of 50000000] by auto
  from account_lists_match_table [of sample_derive sample_merchant sample_mint 500 1000000 ix1
      sample_wallet "pubkey sample_authority" sample_wallet "str_of ''AFF001''" ix2 sample_mint
      "pubkey sample_authority" sample_authority "pubkey sample_merchant" 50000000 ix3 ix4
      sample_mint "pubkey sample_authority" 50000000 ix5 sample_wallet "pubkey sample_authority"
      ix6 sample_wallet "pubkey sample_authority"]
  show ?thesis
    using 1 2 3 4 5 6 by (simp add: sample_parties_def)
qed

subsection \<open>Discriminators\<close>

text \<open>
  Claim C5. The six discriminators are eight bytes long each and pairwise distinct, and
  the data of the instruction a builder returns begins with the discriminator of that
  builder's operation.
\<close>

theorem discriminators_identify_operation:
  "map fst DISCRIMINATORS =
     [''initialize_pool'', ''add_affiliate'', ''process_sale'', ''remove_affiliate'',
      ''deposit_escrow'', ''withdraw_escrow''] \<and>
   map (\<lambda>p. length (snd p)) DISCRIMINATORS = [8, 8, 8, 8, 8, 8] \<and>
   distinct (map snd DISCRIMINATORS) \<and>
   (initialize_pool_ix fpa merchant usdc_mint commission_rate initial_deposit = Inr ix1 \<longrightarrow>
      getitem DISCRIMINATORS ''initialize_pool'' = Inr (take 8 (data ix1))) \<and>
   (add_affiliate_ix fpa merchant affiliate_wallet ref_id = Inr ix2 \<longrightarrow>
      getitem DISCRIMINATORS ''add_affiliate'' = Inr (take 8 (data ix2))) \<and>
   (process_sale_ix fpa authority merchant_key affiliate_wallet usdc_mint amount = Inr ix3 \<longrightarrow>
      getitem DISCRIMINATORS ''process_sale'' = Inr (take 8 (data ix3))) \<and>
   (remove_affiliate_ix fpa merchant affiliate_wallet = Inr ix4 \<longrightarrow>
      getitem DISCRIMINATORS ''remove_affiliate'' = Inr (take 8 (data ix4))) \<and>
   (deposit_escrow_ix fpa merchant usdc_mint amount = Inr ix5 \<longrightarrow>
      getitem DISCRIMINATORS ''deposit_escrow'' = Inr (take 8 (data ix5))) \<and>
   (withdraw_escrow_ix fpa merchant usdc_mint amount = Inr ix6 \<longrightarrow>
      getitem DISCRIMINATORS ''withdraw_escrow'' = Inr (take 8 (data ix6)))"
proof -
  have names: "map fst DISCRIMINATORS =
     [''initialize_pool'', ''add_affiliate'', ''process_sale'', ''remove_affiliate'',
      ''deposit_escrow'', ''withdraw_escrow'']"
    by (simp add: DISCRIMINATORS_def)
  have lens: "map (\<lambda>p. length (snd p)) DISCRIMINATORS = [8, 8, 8, 8, 8, 8]"
    by (simp add: DISCRIMINATORS_def)
  have dist: "distinct (map snd DISCRIMINATORS)"
    by (simp add: DISCRIMINATORS_def)
  have 1: "initialize_pool_ix fpa merchant usdc_mint commission_rate initial_deposit = Inr ix1 \<longrightarrow>
      getitem DISCRIMINATORS ''initialize_pool'' = Inr (take 8 (data ix1))"
    by (auto simp: initialize_pool_ix_eq_Inr getitem_DISCRIMINATORS)
  have 2: "add_affiliate_ix fpa merchant affiliate_wallet ref_id = Inr ix2 \<longrightarrow>
      getitem DISCRIMINATORS ''add_affiliate'' = Inr (take 8 (data ix2))"
    by (auto simp: add_affiliate_ix_eq_Inr getitem_DISCRIMINATORS)
  have 3: "process_sale_ix fpa authority merchant_key affiliate_wallet usdc_mint amount = Inr ix3 \<longrightarrow>
      getitem DISCRIMINATORS ''process_sale'' = Inr (take 8 (data ix3))"
    by (auto simp: process_sale_ix_eq_Inr getitem_DISCRIMINATORS)
  have 4: "remove_affiliate_ix fpa merchant affiliate_wallet = Inr ix4 \<longrightarrow>
      getitem DISCRIMINATORS ''remove_affiliate'' = Inr (take 8 (data ix4))"
    by (auto simp: remove_affiliate_ix_eq_Inr getitem_DISCRIMINATORS)
  have 5: "deposit_escrow_ix fpa merchant usdc_mint amount = Inr ix5 \<longrightarrow>
      getitem DISCRIMINATORS ''deposit_escrow'' = Inr (take 8 (data ix5))"
    by (auto simp: deposit_escrow_ix_eq_Inr getitem_DISCRIMINATORS)
  have 6: "withdraw_escrow_ix fpa merchant usdc_mint amount = Inr ix6 \<longrightarrow>
      getitem DISCRIMINATORS ''withdraw_escrow'' = Inr (take 8 (data ix6))"
    by (auto simp: withdraw_escrow_ix_eq_Inr getitem_DISCRIMINATORS)
  from names lens dist 1 2 3 4 5 6 show ?thesis by blast
qed

theorem discriminators_identify_operation_witness:
  "(\<exists>ix. initialize_pool_ix sample_derive sample_merchant sample_mint 500 1000000 = Inr ix \<and>
      getitem DISCRIMINATORS ''initialize_pool'' = Inr (take 8 (data ix))) \<and>
   (\<exists>ix. add_affiliate_ix sample_derive sample_merchant sample_wallet (str_of ''AFF001'') = Inr ix \<and>
      getitem DISCRIMINATORS ''add_affiliate'' = Inr (take 8 (data ix))) \<and>
   (\<exists>ix. process_sale_ix sample_derive sample_authority (pubkey sample_merchant) sample_wallet
           sample_mint 50000000 = Inr ix \<and>
      getitem DISCRIMINATORS ''process_sale'' = Inr (take 8 (data ix))) \<and>
   (\<exists>ix. remove_affiliate_ix sample_derive sample_merchant sample_wallet = Inr ix \<and>
      getitem DISCRIMINATORS ''remove_affiliate'' = Inr (take 8 (data ix))) \<and>
   (\<exists>ix. deposit_escrow_ix sample_derive sample_merchant sample_mint 50000000 = Inr ix \<and>
      getitem DISCRIMINATORS ''deposit_escrow'' = Inr (take 8 (data ix))) \<and>
   (\<exists>ix. withdraw_escrow_ix sample_derive sample_merchant sample_mint 50000000 = Inr ix \<and>
      getitem DISCRIMINATORS ''withdraw_escrow'' = Inr (take 8 (data ix)))"
proof -
  obtain ix1 where 1: "initialize_pool_ix sample_derive sample_merchant sample_mint 500 1000000 = Inr ix1"
    using sample_initialize_pool_ix [of 500 1000000] by auto
  obtain ix2 where 2: "add_affiliate_ix sample_derive sample_merchant sample_wallet (str_of ''AFF001'') = Inr ix2"
    using sample_add_affiliate_ix by auto
  obtain ix3 where 3: "process_sale_ix sample_derive sample_authority (pubkey sample_merchant)
      sample_wallet sample_mint 50000000 = Inr ix3"
    using sample_process_sale_ix [of 50000000] by auto
  obtain ix4 where 4: "remove_affiliate_ix sample_derive sample_merchant sample_wallet = Inr ix4"
    using sample_remove_affiliate_ix by auto
  obtain ix5 where 5: "deposit_escrow_ix sample_derive sample_merchant sample_mint 50000000 = Inr ix5"
    using sample_deposit_escrow_ix [of 50000000] by auto
  obtain ix6 where 6: "withdraw_escrow_ix sample_derive sample_merchant sample_mint 50000000 = Inr ix6"
    using sample_withdraw_escrow_ix [of 50000000] by auto
  from discriminators_identify_operation [where fpa = sample_derive and merchant = sample_merchant
      and usdc_mint = sample_mint and commission_rate = 500 and initial_deposit = 1000000
      and ?ix1.0 = ix1 and affiliate_wallet = sample_wallet and ref_id = "str_of ''AFF001''"
      and ?ix2.0 = ix2 and authority = sample_authority and merchant_key = "pubkey sample_merchant"
      and amount = 50000000 and ?ix3.0 = ix3 and ?ix4.0 = ix4 and ?ix5.0 = ix5 and ?ix6.0 = ix6]
  show ?thesis
    using 1 2 3 4 5 6 by simp
qed

subsection \<open>Seeds\<close>

lemma ascii_tags:
  "ascii ''pool'' = [112, 111, 111, 108]"
  "ascii ''escrow_authority'' =
     [101, 115, 99, 114, 111, 119, 95, 97, 117, 116, 104, 111, 114, 105, 116, 121]"
  "ascii ''affiliate'' = [97, 102, 102, 105, 108, 105, 97, 116, 101]"
  by (simp_all add: ascii_def)

text \<open>
  Claim C6. The pool address is derived from the seeds "pool" and the merchant address,
  the escrow authority from "escrow_authority" and the pool address, the affiliate account
  from "affiliate", the pool address and the wallet address, all three under the program
  identifier; the associated token address from the owner, the token-program identifier
  and the mint, under the associated-token program, and only the address is returned.
\<close>

theorem derivation_seeds:
  "find_pool_pda fpa merchant =
     (case fpa [ascii ''pool'', to_bytes merchant] PROGRAM_ID of
        None \<Rightarrow> Inl DerivationError | Some r \<Rightarrow> Inr r) \<and>
   find_escrow_authority_pda fpa pool =
     (case fpa [ascii ''escrow_authority'', to_bytes pool] PROGRAM_ID of
        None \<Rightarrow> Inl DerivationError | Some r \<Rightarrow> Inr r) \<and>
   find_affiliate_pda fpa pool wallet =
     (case fpa [ascii ''affiliate'', to_bytes pool, to_bytes wallet] PROGRAM_ID of
        None \<Rightarrow> Inl DerivationError | Some r \<Rightarrow> Inr r) \<and>
   find_associated_token_address fpa owner mint =
     (case fpa [to_bytes owner, to_bytes TOKEN_PROGRAM_ID, to_bytes mint]
             ASSOCIATED_TOKEN_PROGRAM_ID of
        None \<Rightarrow> Inl DerivationError | Some r \<Rightarrow> Inr (fst r))"
  by (simp add: find_pool_pda_def find_escrow_authority_pda_def find_affiliate_pda_def
      find_associated_token_address_def find_program_address_def split: option.split)

subsection \<open>Determinism\<close>

text \<open>
  With a library call that does not touch the world, the derivations with the world
  explicit are the derivations above.
\<close>

lemma find_program_address_st_pure:
  "find_program_address_st (\<lambda>w seeds prog. (fpa seeds prog, w)) seeds prog w =
     (find_program_address fpa seeds prog, w)"
  by (simp add: find_program_address_st_def find_program_address_def split: option.split)

lemma derivations_st_pure:
  "find_pool_pda_st (\<lambda>w seeds prog. (fpa seeds prog, w)) merchant w =
     (find_pool_pda fpa merchant, w)"
  "find_escrow_authority_pda_st (\<lambda>w seeds prog. (fpa seeds prog, w)) pool w =
     (find_escrow_authority_pda fpa pool, w)"
  "find_affiliate_pda_st (\<lambda>w seeds prog. (fpa seeds prog, w)) pool wallet w =
     (find_affiliate_pda fpa pool wallet, w)"
  "find_associated_token_address_st (\<lambda>w seeds prog. (fpa seeds prog, w)) owner mint w =
     (find_associated_token_address fpa owner mint, w)"
  by (simp_all add: find_pool_pda_st_def find_escrow_authority_pda_st_def
      find_affiliate_pda_st_def find_associated_token_address_st_def
      find_pool_pda_def find_escrow_authority_pda_def find_affiliate_pda_def
      find_associated_token_address_def find_program_address_st_pure)




lemma two_runs_eq:
  "two_runs call w = (fst (call w), fst (call (snd (call w))))"
  by (simp add: two_runs_def split: prod.split)




text \<open>
  The premise matters: with a library call whose answer drifts with the world, two
  calls in a row of the same derivation give two bumps.
\<close>

lemma drifting_library_two_runs:
  "two_runs (find_pool_pda_st drifting_library merchant) 0 =
     (Inr (PROGRAM_ID, 0), Inr (PROGRAM_ID, 1))"
  by (simp add: two_runs_eq find_pool_pda_st_def find_program_address_st_def
      drifting_library_def)

subsection \<open>Argument payloads\<close>

lemma unpack_HQ_le_bytes:
  assumes "0 \<le> a" and "a < 256 ^ 2" and "0 \<le> b" and "b < 256 ^ 8"
  shows "unpack_HQ (le_bytes 2 a @ le_bytes 8 b) = Inr (a, b)"
proof -
  have "le_value (le_bytes 2 a) = a" and "le_value (le_bytes 8 b) = b"
    using assms by (simp_all only: le_value_le_bytes)
  then show ?thesis
    by (simp add: unpack_HQ_def del: le_bytes.simps le_value.simps)
qed

text \<open>
  Claim C2. The bytes that follow the 8-byte discriminator in the data of the instruction
  returned by \<open>initialize_pool_ix\<close>, read as a little-endian u16 followed by a
  little-endian u64, give back the commission rate and the initial deposit, as for 500 and
  1000000; and for every rate in [0, 65535] and deposit in [0, 2^64) packing both and
  unpacking the result is the identity.
\<close>

theorem initialize_pool_payload_roundtrip:
  "(initialize_pool_ix fpa merchant usdc_mint commission_rate initial_deposit = Inr ix \<longrightarrow>
      unpack_HQ (drop 8 (data ix)) = Inr (commission_rate, initial_deposit)) \<and>
   (0 \<le> commission_rate \<and> commission_rate \<le> 65535 \<and>
    0 \<le> initial_deposit \<and> initial_deposit < 2 ^ 64 \<longrightarrow>
      (\<exists>h q. pack_H commission_rate = Inr h \<and> pack_Q initial_deposit = Inr q \<and>
         unpack_HQ (h @ q) = Inr (commission_rate, initial_deposit)))"
proof (intro conjI impI)
  assume "initialize_pool_ix fpa merchant usdc_mint commission_rate initial_deposit = Inr ix"
  then have "data ix = [95, 180, 10, 172, 84, 174, 232, 40] @
      le_bytes 2 commission_rate @ le_bytes 8 initial_deposit"
    and "0 \<le> commission_rate" and "commission_rate < 256 ^ 2"
    and "0 \<le> initial_deposit" and "initial_deposit < 256 ^ 8"
    unfolding initialize_pool_ix_eq_Inr by auto
  then show "unpack_HQ (drop 8 (data ix)) = Inr (commission_rate, initial_deposit)"
    by (simp add: unpack_HQ_le_bytes del: le_bytes.simps)
next
  assume "0 \<le> commission_rate \<and> commission_rate \<le> 65535 \<and>
    0 \<le> initial_deposit \<and> initial_deposit < 2 ^ 64"
  then have r: "0 \<le> commission_rate" "commission_rate < 256 ^ 2"
    "0 \<le> initial_deposit" "initial_deposit < 256 ^ 8"
    by simp_all
  then have "pack_H commission_rate = Inr (le_bytes 2 commission_rate)"
    and "pack_Q initial_deposit = Inr (le_bytes 8 initial_deposit)"
    by (simp_all add: pack_H_def pack_Q_def pack_le_def del: le_bytes.simps)
  with unpack_HQ_le_bytes [OF r]
  show "\<exists>h q. pack_H commission_rate = Inr h \<and> pack_Q initial_deposit = Inr q \<and>
         unpack_HQ (h @ q) = Inr (commission_rate, initial_deposit)"
    by blast
qed

theorem initialize_pool_payload_roundtrip_witness:
  "(\<exists>ix. initialize_pool_ix sample_derive sample_merchant sample_mint 500 1000000 = Inr ix \<and>
      unpack_HQ (drop 8 (data ix)) = Inr (500, 1000000)) \<and>
   (\<exists>h q. pack_H 500 = Inr h \<and> pack_Q 1000000 = Inr q \<and> unpack_HQ (h @ q) = Inr (500, 1000000))"
proof -
  obtain ix where 1: "initialize_pool_ix sample_derive sample_merchant sample_mint 500 1000000 = Inr ix"
    using sample_initialize_pool_ix [of 500 1000000] by auto
  from initialize_pool_payload_roundtrip [of sample_derive sample_merchant sample_mint 500 1000000 ix]
  show ?thesis
    using 1 by simp
qed

lemma le_bytes_numeral:
  "le_bytes (numeral k) v = word_of_int (v mod 256) # le_bytes (pred_numeral k) (v div 256)"
  by (simp add: numeral_eq_Suc)

lemma encode_utf8_AFF001: "encode_utf8 (str_of ''AFF001'') = Inr (ascii ''AFF001'')"
  by (simp add: str_of_def ascii_def utf8_char_def)

lemma encode_utf8_ascii:
  "\<forall>c \<in> set s. c < 128 \<Longrightarrow> encode_utf8 s = Inr (map of_nat s)"
  by (induction s) (simp_all add: utf8_char_def)

text \<open>
  Claim C3, as stated: the data produced for the reference "AFF001" has the length prefix
  at its very start, its first four bytes reading 6. On the concrete parties the first
  four bytes of the data are the first half of the discriminator and read 2671570909; the
  six bytes after them are the second half of the discriminator and the start of the
  length prefix, not the reference.
\<close>

theorem add_affiliate_prefix_at_start_counterexample:
  "map_sum id (le_value \<circ> take 4 \<circ> data)
     (add_affiliate_ix sample_derive sample_merchant sample_wallet (str_of ''AFF001'')) =
     Inr 2671570909 \<and>
   map_sum id (le_value \<circ> take 4 \<circ> data)
     (add_affiliate_ix sample_derive sample_merchant sample_wallet (str_of ''AFF001'')) \<noteq>
     Inr 6 \<and>
   map_sum id (take 6 \<circ> drop 4 \<circ> data)
     (add_affiliate_ix sample_derive sample_merchant sample_wallet (str_of ''AFF001'')) =
     Inr [213, 45, 221, 87, 6, 0]"
proof -
  obtain ix where 1: "add_affiliate_ix sample_derive sample_merchant sample_wallet
      (str_of ''AFF001'') = Inr ix"
    using sample_add_affiliate_ix by auto
  then have "data ix = [221, 239, 60, 159, 213, 45, 221, 87] @ le_bytes 4 6 @ ascii ''AFF001''"
    unfolding add_affiliate_ix_eq_Inr encode_utf8_AFF001 by (auto simp: ascii_def)
  then have "le_value (take 4 (data ix)) = 2671570909"
    and "take 6 (drop 4 (data ix)) = [213, 45, 221, 87, 6, 0]"
    by (simp_all add: le_bytes_numeral)
  with 1 show ?thesis
    by simp
qed

text \<open>
  Claim C3, amended. The data produced for the reference "AFF001" begins with the 8-byte
  discriminator of add-affiliate; the four bytes after it read 6 as a little-endian
  number, and the six ASCII bytes of AFF001 follow and end the data.
\<close>

theorem add_affiliate_prefix_after_discriminator:
  assumes "add_affiliate_ix fpa merchant affiliate_wallet (str_of ''AFF001'') = Inr ix"
  shows "getitem DISCRIMINATORS ''add_affiliate'' = Inr (take 8 (data ix)) \<and>
    le_value (take 4 (drop 8 (data ix))) = 6 \<and>
    drop 12 (data ix) = ascii ''AFF001'' \<and>
    ascii ''AFF001'' = [65, 70, 70, 48, 48, 49]"
proof -
  from assms have "data ix = [221, 239, 60, 159, 213, 45, 221, 87] @ le_bytes 4 6 @ ascii ''AFF001''"
    unfolding add_affiliate_ix_eq_Inr encode_utf8_AFF001 by (auto simp: ascii_def)
  then show ?thesis
    by (simp add: getitem_DISCRIMINATORS le_bytes_numeral ascii_def)
qed

theorem add_affiliate_prefix_after_discriminator_witness:
  "\<exists>ix. add_affiliate_ix sample_derive sample_merchant sample_wallet (str_of ''AFF001'') = Inr ix \<and>
     getitem DISCRIMINATORS ''add_affiliate'' = Inr (take 8 (data ix)) \<and>
     le_value (take 4 (drop 8 (data ix))) = 6 \<and>
     drop 12 (data ix) = ascii ''AFF001''"
proof -
  obtain ix where 1: "add_affiliate_ix sample_derive sample_merchant sample_wallet
      (str_of ''AFF001'') = Inr ix"
    using sample_add_affiliate_ix by auto
  from add_affiliate_prefix_after_discriminator [OF 1] 1 show ?thesis
    by blast
qed

subsection \<open>Ranges of the packed arguments\<close>

text \<open>
  Claim C7. \<open>initialize_pool_ix\<close> checks no business rule on the commission rate: when
  the addresses derive, every rate that fits the two-byte field, 0 and 10000 and every
  rate above 10000 up to 65535, is encoded as it is and the instruction is returned.
\<close>

theorem commission_rate_not_validated:
  assumes "find_pool_pda fpa (pubkey merchant) = Inr (pool_pda, b1)"
    and "find_escrow_authority_pda fpa pool_pda = Inr (escrow_authority, b2)"
    and "find_associated_token_address fpa (pubkey merchant) usdc_mint = Inr merchant_usdc"
    and "find_associated_token_address fpa escrow_authority usdc_mint = Inr escrow_usdc"
    and "0 \<le> commission_rate" and "commission_rate \<le> 65535"
    and "0 \<le> initial_deposit" and "initial_deposit < 2 ^ 64"
  shows "\<exists>ix. initialize_pool_ix fpa merchant usdc_mint commission_rate initial_deposit = Inr ix \<and>
    data ix = [95, 180, 10, 172, 84, 174, 232, 40] @
      le_bytes 2 commission_rate @ le_bytes 8 initial_deposit \<and>
    unpack_HQ (drop 8 (data ix)) = Inr (commission_rate, initial_deposit)"
proof -
  have r: "0 \<le> commission_rate" "commission_rate < 256 ^ 2"
    "0 \<le> initial_deposit" "initial_deposit < 256 ^ 8"
    using assms(5-8) by simp_all
  then obtain ix where 1:
    "initialize_pool_ix fpa merchant usdc_mint commission_rate initial_deposit = Inr ix"
    unfolding initialize_pool_ix_eq_Inr using assms(1-4) by blast
  then have "data ix = [95, 180, 10, 172, 84, 174, 232, 40] @
      le_bytes 2 commission_rate @ le_bytes 8 initial_deposit"
    unfolding initialize_pool_ix_eq_Inr by auto
  with 1 unpack_HQ_le_bytes [OF r] show ?thesis
    by (simp del: le_bytes.simps)
qed

lemma sample_derivations:
  "find_pool_pda sample_derive m =
     Inr (sample_address [ascii ''pool'', to_bytes m] PROGRAM_ID, 255)"
  "find_escrow_authority_pda sample_derive p =
     Inr (sample_address [ascii ''escrow_authority'', to_bytes p] PROGRAM_ID, 255)"
  "find_affiliate_pda sample_derive p w =
     Inr (sample_address [ascii ''affiliate'', to_bytes p, to_bytes w] PROGRAM_ID, 255)"
  "find_associated_token_address sample_derive ow mi =
     Inr (sample_address [to_bytes ow, to_bytes TOKEN_PROGRAM_ID, to_bytes mi]
            ASSOCIATED_TOKEN_PROGRAM_ID)"
  by (simp_all add: find_pool_pda_def find_escrow_authority_pda_def find_affiliate_pda_def
      find_associated_token_address_def sample_find_program_address)

theorem commission_rate_not_validated_witness:
  "(\<exists>ix. initialize_pool_ix sample_derive sample_merchant sample_mint 0 1000000 = Inr ix \<and>
      data ix = [95, 180, 10, 172, 84, 174, 232, 40] @ le_bytes 2 0 @ le_bytes 8 1000000 \<and>
      unpack_HQ (drop 8 (data ix)) = Inr (0, 1000000)) \<and>
   (\<exists>ix. initialize_pool_ix sample_derive sample_merchant sample_mint 10000 1000000 = Inr ix \<and>
      data ix = [95, 180, 10, 172, 84, 174, 232, 40] @ le_bytes 2 10000 @ le_bytes 8 1000000 \<and>
      unpack_HQ (drop 8 (data ix)) = Inr (10000, 1000000)) \<and>
   (\<exists>ix. initialize_pool_ix sample_derive sample_merchant sample_mint 10001 0 = Inr ix \<and>
      data ix = [95, 180, 10, 172, 84, 174, 232, 40] @ le_bytes 2 10001 @ le_bytes 8 0 \<and>
      unpack_HQ (drop 8 (data ix)) = Inr (10001, 0)) \<and>
   (\<exists>ix. initialize_pool_ix sample_derive sample_merchant sample_mint 65535 0 = Inr ix \<and>
      data ix = [95, 180, 10, 172, 84, 174, 232, 40] @ le_bytes 2 65535 @ le_bytes 8 0 \<and>
      unpack_HQ (drop 8 (data ix)) = Inr (65535, 0))"
  using commission_rate_not_validated [where fpa = sample_derive and merchant = sample_merchant
      and usdc_mint = sample_mint and commission_rate = 0 and initial_deposit = 1000000,
      OF sample_derivations(1) sample_derivations(2) sample_derivations(4)
        sample_derivations(4)]
    commission_rate_not_validated [where fpa = sample_derive and merchant = sample_merchant
      and usdc_mint = sample_mint and commission_rate = 10000 and initial_deposit = 1000000,
      OF sample_derivations(1) sample_derivations(2) sample_derivations(4)
        sample_derivations(4)]
    commission_rate_not_validated [where fpa = sample_derive and merchant = sample_merchant
      and usdc_mint = sample_mint and commission_rate = 10001 and initial_deposit = 0,
      OF sample_derivations(1) sample_derivations(2) sample_derivations(4)
        sample_derivations(4)]
    commission_rate_not_validated [where fpa = sample_derive and merchant = sample_merchant
      and usdc_mint = sample_mint and commission_rate = 65535 and initial_deposit = 0,
      OF sample_derivations(1) sample_derivations(2) sample_derivations(4)
        sample_derivations(4)]
  by (simp del: le_bytes.simps)

lemma pack_le_cases:
  "pack_le n v = Inl StructError \<longleftrightarrow> v < 0 \<or> 256 ^ n \<le> v"
  "(\<exists>bs. pack_le n v = Inr bs) \<longleftrightarrow> 0 \<le> v \<and> v < 256 ^ n"
  by (auto simp: pack_le_def)

lemma bind_pack_le_StructError:
  "bind (pack_le n v) f = Inl StructError \<longleftrightarrow>
     v < 0 \<or> 256 ^ n \<le> v \<or> f (le_bytes n v) = Inl StructError"
  by (auto simp: pack_le_def)

lemma bind_pack_le_Inr:
  "bind (pack_le n v) f = Inr y \<longleftrightarrow> 0 \<le> v \<and> v < 256 ^ n \<and> f (le_bytes n v) = Inr y"
  by (auto simp: pack_le_def)

text \<open>Whatever the derivations do, no instruction comes back for an argument off its width.\<close>

lemma out_of_width_never_returns:
  "commission_rate < 0 \<or> 65535 < commission_rate \<or> initial_deposit < 0 \<or> 2 ^ 64 \<le> initial_deposit \<Longrightarrow>
     initialize_pool_ix fpa merchant usdc_mint commission_rate initial_deposit \<noteq> Inr ix"
  "amount < 0 \<or> 2 ^ 64 \<le> amount \<Longrightarrow>
     process_sale_ix fpa authority merchant_key affiliate_wallet usdc_mint amount \<noteq> Inr ix"
  "amount < 0 \<or> 2 ^ 64 \<le> amount \<Longrightarrow> deposit_escrow_ix fpa merchant usdc_mint amount \<noteq> Inr ix"
  "amount < 0 \<or> 2 ^ 64 \<le> amount \<Longrightarrow> withdraw_escrow_ix fpa merchant usdc_mint amount \<noteq> Inr ix"
  by (auto simp: initialize_pool_ix_eq_Inr process_sale_ix_eq_Inr deposit_escrow_ix_eq_Inr
      withdraw_escrow_ix_eq_Inr)

text \<open>
  Claim C10. When the addresses derive, \<open>initialize_pool_ix\<close> raises the packing error,
  and returns no instruction, exactly when the commission rate is negative or above 65535
  or the initial deposit is negative or at least 2^64, and returns an instruction exactly
  when both are within their widths. The same holds for the amount of \<open>process_sale_ix\<close>,
  \<open>deposit_escrow_ix\<close> and \<open>withdraw_escrow_ix\<close> and the width of a u64.
\<close>

theorem packing_width_limits:
  assumes "find_pool_pda fpa (pubkey merchant) = Inr (pool_pda, b1)"
    and "find_escrow_authority_pda fpa pool_pda = Inr (escrow_authority, b2)"
    and "find_affiliate_pda fpa pool_pda affiliate_wallet = Inr (affiliate_pda, b3)"
    and "find_associated_token_address fpa (pubkey merchant) usdc_mint = Inr merchant_usdc"
    and "find_associated_token_address fpa escrow_authority usdc_mint = Inr escrow_usdc"
    and "find_associated_token_address fpa affiliate_wallet usdc_mint = Inr affiliate_usdc"
  shows
   "(initialize_pool_ix fpa merchant usdc_mint commission_rate initial_deposit = Inl StructError \<longleftrightarrow>
       commission_rate < 0 \<or> 65535 < commission_rate \<or>
       initial_deposit < 0 \<or> 2 ^ 64 \<le> initial_deposit) \<and>
    ((\<exists>ix. initialize_pool_ix fpa merchant usdc_mint commission_rate initial_deposit = Inr ix) \<longleftrightarrow>
       0 \<le> commission_rate \<and> commission_rate \<le> 65535 \<and>
       0 \<le> initial_deposit \<and> initial_deposit < 2 ^ 64) \<and>
    (process_sale_ix fpa authority (pubkey merchant) affiliate_wallet usdc_mint amount =
       Inl StructError \<longleftrightarrow> amount < 0 \<or> 2 ^ 64 \<le> amount) \<and>
    ((\<exists>ix. process_sale_ix fpa authority (pubkey merchant) affiliate_wallet usdc_mint amount =
       Inr ix) \<longleftrightarrow> 0 \<le> amount \<and> amount < 2 ^ 64) \<and>
    (deposit_escrow_ix fpa merchant usdc_mint amount = Inl StructError \<longleftrightarrow>
       amount < 0 \<or> 2 ^ 64 \<le> amount) \<and>
    ((\<exists>ix. deposit_escrow_ix fpa merchant usdc_mint amount = Inr ix) \<longleftrightarrow>
       0 \<le> amount \<and> amount < 2 ^ 64) \<and>
    (withdraw_escrow_ix fpa merchant usdc_mint amount = Inl StructError \<longleftrightarrow>
       amount < 0 \<or> 2 ^ 64 \<le> amount) \<and>
    ((\<exists>ix. withdraw_escrow_ix fpa merchant usdc_mint amount = Inr ix) \<longleftrightarrow>
       0 \<le> amount \<and> amount < 2 ^ 64)"
proof -
  have i1: "initialize_pool_ix fpa merchant usdc_mint commission_rate initial_deposit =
      Inl StructError \<longleftrightarrow>
      commission_rate < 0 \<or> 65535 < commission_rate \<or> initial_deposit < 0 \<or> 2 ^ 64 \<le> initial_deposit"
    by (simp add: initialize_pool_ix_def assms getitem_DISCRIMINATORS pack_H_def pack_Q_def
        bind_pack_le_StructError del: le_bytes.simps) linarith
  have i2: "(\<exists>ix. initialize_pool_ix fpa merchant usdc_mint commission_rate initial_deposit = Inr ix) \<longleftrightarrow>
      0 \<le> commission_rate \<and> commission_rate \<le> 65535 \<and> 0 \<le> initial_deposit \<and> initial_deposit < 2 ^ 64"
    by (simp add: initialize_pool_ix_def assms getitem_DISCRIMINATORS pack_H_def pack_Q_def
        bind_pack_le_Inr del: le_bytes.simps) linarith
  have p1: "process_sale_ix fpa authority (pubkey merchant) affiliate_wallet usdc_mint amount =
      Inl StructError \<longleftrightarrow> amount < 0 \<or> 2 ^ 64 \<le> amount"
    by (simp add: process_sale_ix_def assms getitem_DISCRIMINATORS pack_Q_def
        bind_pack_le_StructError del: le_bytes.simps)
  have p2: "(\<exists>ix. process_sale_ix fpa authority (pubkey merchant) affiliate_wallet usdc_mint amount =
      Inr ix) \<longleftrightarrow> 0 \<le> amount \<and> amount < 2 ^ 64"
    by (simp add: process_sale_ix_def assms getitem_DISCRIMINATORS pack_Q_def
        bind_pack_le_Inr del: le_bytes.simps)
  have d1: "deposit_escrow_ix fpa merchant usdc_mint amount = Inl StructError \<longleftrightarrow>
      amount < 0 \<or> 2 ^ 64 \<le> amount"
    by (simp add: deposit_escrow_ix_def assms getitem_DISCRIMINATORS pack_Q_def
        bind_pack_le_StructError del: le_bytes.simps)
  have d2: "(\<exists>ix. deposit_escrow_ix fpa merchant usdc_mint amount = Inr ix) \<longleftrightarrow>
      0 \<le> amount \<and> amount < 2 ^ 64"
    by (simp add: deposit_escrow_ix_def assms getitem_DISCRIMINATORS pack_Q_def
        bind_pack_le_Inr del: le_bytes.simps)
  have w1: "withdraw_escrow_ix fpa merchant usdc_mint amount = Inl StructError \<longleftrightarrow>
      amount < 0 \<or> 2 ^ 64 \<le> amount"
    by (simp add: withdraw_escrow_ix_def assms getitem_DISCRIMINATORS pack_Q_def
        bind_pack_le_StructError del: le_bytes.simps)
  have w2: "(\<exists>ix. withdraw_escrow_ix fpa merchant usdc_mint amount = Inr ix) \<longleftrightarrow>
      0 \<le> amount \<and> amount < 2 ^ 64"
    by (simp add: withdraw_escrow_ix_def assms getitem_DISCRIMINATORS pack_Q_def
        bind_pack_le_Inr del: le_bytes.simps)
  from i1 i2 p1 p2 d1 d2 w1 w2 show ?thesis
    by blast
qed

theorem packing_width_limits_witness:
  "initialize_pool_ix sample_derive sample_merchant sample_mint 65536 0 = Inl StructError \<and>
   initialize_pool_ix sample_derive sample_merchant sample_mint (- 1) 0 = Inl StructError \<and>
   initialize_pool_ix sample_derive sample_merchant sample_mint 500 18446744073709551616 =
     Inl StructError \<and>
   initialize_pool_ix sample_derive sample_merchant sample_mint 500 (- 1) = Inl StructError \<and>
   (\<exists>ix. initialize_pool_ix sample_derive sample_merchant sample_mint 65535
      18446744073709551615 = Inr ix) \<and>
   process_sale_ix sample_derive sample_authority (pubkey sample_merchant) sample_wallet
     sample_mint 18446744073709551616 = Inl StructError \<and>
   (\<exists>ix. process_sale_ix sample_derive sample_authority (pubkey sample_merchant) sample_wallet
      sample_mint 18446744073709551615 = Inr ix) \<and>
   deposit_escrow_ix sample_derive sample_merchant sample_mint (- 1) = Inl StructError \<and>
   (\<exists>ix. deposit_escrow_ix sample_derive sample_merchant sample_mint 0 = Inr ix) \<and>
   withdraw_escrow_ix sample_derive sample_merchant sample_mint 18446744073709551616 =
     Inl StructError \<and>
   (\<exists>ix. withdraw_escrow_ix sample_derive sample_merchant sample_mint 18446744073709551615 = Inr ix)"
proof -
  note w = packing_width_limits [where fpa = sample_derive and merchant = sample_merchant
      and usdc_mint = sample_mint and affiliate_wallet = sample_wallet
      and authority = sample_authority,
      OF sample_derivations(1) sample_derivations(2) sample_derivations(3)
        sample_derivations(4) sample_derivations(4) sample_derivations(4)]
  show ?thesis
    using w [of 65536 0 18446744073709551616] w [of "- 1" 0 "- 1"]
      w [of 500 18446744073709551616 0] w [of 500 "- 1" 0]
      w [of 65535 18446744073709551615 18446744073709551615]
    by simp
qed

section \<open>Properties of the fix-up\<close>

lemma split_str_first: "\<exists>ws. split_str sep s = takeWhile (\<lambda>c. c \<noteq> sep) s # ws"
  by (induction s) auto

lemma first_component_JStr:
  "first_component (JStr s) = Inr (JStr (takeWhile (\<lambda>c. c \<noteq> CHR ''.'') s))"
proof -
  obtain ws where "split_str CHR ''.'' s = takeWhile (\<lambda>c. c \<noteq> CHR ''.'') s # ws"
    using split_str_first by blast
  then show ?thesis
    by (simp add: first_component_def)
qed

lemma first_component_eq_Inr:
  "first_component p = Inr p' \<longleftrightarrow>
     (\<exists>s. p = JStr s \<and> p' = JStr (takeWhile (\<lambda>c. c \<noteq> CHR ''.'') s))"
  by (cases p) (auto simp: first_component_JStr, simp_all add: first_component_def)

lemma getitem_eq_Inr: "getitem d k = Inr v \<longleftrightarrow> map_of d k = Some v"
  by (simp add: getitem_def split: option.split)

lemma map_of_None_iff_keys: "map_of d k = None \<longleftrightarrow> k \<notin> set (map fst d)"
  by (simp add: map_of_eq_None_iff)

lemma delete_not_key: "k \<notin> set (map fst (AList.delete k al))"
  by (simp add: delete_keys)

lemma fix_seed_fixed:
  assumes "fix_seed seed = Inr seed'"
  shows "seed_fixed seed seed'"
proof (cases seed)
  case (JDict d)
  show ?thesis
  proof (cases "map_of d ''kind'' = Some (JStr ''account'') \<and> ''path'' \<in> set (map fst d)")
    case True
    with assms JDict obtain s where s: "map_of d ''path'' = Some (JStr s)"
      and seed': "seed' = JDict (AList.delete ''account''
         (AList.update ''path'' (JStr (takeWhile (\<lambda>c. c \<noteq> CHR ''.'') s)) d))"
      by (auto simp: fix_seed_def bind_eq_Inr getitem_eq_Inr first_component_eq_Inr)
    show ?thesis
      unfolding seed_fixed_def
      using JDict True s seed' delete_not_key [of "''account''"]
      by (simp add: delete_conv' update_conv')
  next
    case False
    with assms JDict have seed': "seed' = JDict (AList.delete ''account'' d)"
      by (auto simp: fix_seed_def)
    show ?thesis
      unfolding seed_fixed_def
      using JDict False seed' delete_not_key [of "''account''"]
      by (auto simp: delete_conv' map_of_None_iff_keys [symmetric] simp del: set_map)
  qed
qed (use assms in \<open>simp_all add: fix_seed_def\<close>)

lemma fix_seeds_loop_fixed:
  "fix_seeds_loop seeds = Inr seeds' \<Longrightarrow> list_all2 seed_fixed seeds seeds'"
proof (induction seeds arbitrary: seeds')
  case Nil
  then show ?case by simp
next
  case (Cons seed rest)
  then obtain x xs where "fix_seed seed = Inr x" and "fix_seeds_loop rest = Inr xs"
    and "seeds' = x # xs"
    by (auto simp: bind_eq_Inr)
  with Cons.IH show ?case
    by (simp add: fix_seed_fixed)
qed

lemma fix_seed_shaped:
  assumes "seed_shaped seed"
  shows "\<exists>seed'. fix_seed seed = Inr seed'"
proof (cases seed)
  case (JDict d)
  with assms show ?thesis
    by (auto simp: seed_shaped_def fix_seed_def getitem_def first_component_JStr
        map_of_eq_None_iff [symmetric] split: if_splits option.splits json.splits)
qed (use assms in \<open>simp_all add: seed_shaped_def\<close>)

lemma fix_seeds_loop_shaped:
  "list_all seed_shaped seeds \<Longrightarrow> \<exists>seeds'. fix_seeds_loop seeds = Inr seeds'"
proof (induction seeds)
  case Nil
  then show ?case by simp
next
  case (Cons seed rest)
  then obtain x xs where "fix_seed seed = Inr x" and "fix_seeds_loop rest = Inr xs"
    using fix_seed_shaped by fastforce
  then show ?case by simp
qed

lemma fix_seeds_JList:
  assumes "fix_seeds (JList seeds) = Inr v"
  shows "\<exists>seeds'. v = JList seeds' \<and> list_all2 seed_fixed seeds seeds'"
  using assms by (auto simp: fix_seeds_def bind_eq_Inr fix_seeds_loop_fixed)

lemma fix_pda_seeds_step:
  assumes "(if ''seeds'' \<in> set (map fst d)
            then bind (py_getitem (JDict d) ''seeds'') (\<lambda>seeds.
                 bind (fix_seeds seeds) (\<lambda>seeds'. Inr (with_seeds (JDict d) seeds')))
            else Inr (JDict d)) = Inr pda1"
  shows "\<exists>d1. pda1 = JDict d1 \<and>
    (\<forall>k. k \<noteq> ''seeds'' \<longrightarrow> map_of d1 k = map_of d k) \<and>
    (\<forall>seeds. map_of d ''seeds'' = Some (JList seeds) \<longrightarrow>
       (\<exists>seeds'. map_of d1 ''seeds'' = Some (JList seeds') \<and> list_all2 seed_fixed seeds seeds'))"
proof (cases "''seeds'' \<in> set (map fst d)")
  case True
  with assms obtain sv sv' where sv: "map_of d ''seeds'' = Some sv"
    and sv': "fix_seeds sv = Inr sv'"
    and pda1: "pda1 = JDict (AList.update ''seeds'' sv' d)"
    by (auto simp: bind_eq_Inr getitem_eq_Inr)
  have "\<exists>seeds'. sv' = JList seeds' \<and> list_all2 seed_fixed seeds seeds'"
    if "sv = JList seeds" for seeds
    using fix_seeds_JList sv' that by blast
  with sv pda1 show ?thesis
    by (auto simp: update_conv')
next
  case False
  then have "map_of d ''seeds'' = None"
    by (simp add: map_of_None_iff_keys)
  with assms False show ?thesis
    by auto
qed

lemma fix_pda_program_step:
  assumes "(if ''program'' \<in> set (map fst d1)
            then bind (py_getitem (JDict d1) ''program'') (\<lambda>prog.
                   if \<not> program_ok prog then py_pop (JDict d1) ''program'' else Inr (JDict d1))
            else Inr (JDict d1)) = Inr pda'"
  shows "\<exists>d'. pda' = JDict d' \<and>
    (\<forall>k. k \<noteq> ''program'' \<longrightarrow> map_of d' k = map_of d1 k) \<and>
    map_of d' ''program'' =
      (case map_of d1 ''program'' of
         None \<Rightarrow> None
       | Some prog \<Rightarrow> if program_ok prog then Some prog else None)"
proof (cases "''program'' \<in> set (map fst d1)")
  case True
  with assms obtain prog where prog: "map_of d1 ''program'' = Some prog"
    and res: "(if \<not> program_ok prog then py_pop (JDict d1) ''program'' else Inr (JDict d1)) = Inr pda'"
    by (auto simp: bind_eq_Inr getitem_eq_Inr)
  show ?thesis
  proof (cases "program_ok prog")
    case True
    with res prog show ?thesis by auto
  next
    case False
    with res \<open>''program'' \<in> set (map fst d1)\<close> have "pda' = JDict (AList.delete ''program'' d1)"
      by simp
    with prog False show ?thesis
      by (simp add: delete_conv')
  qed
next
  case False
  then have "map_of d1 ''program'' = None"
    by (simp add: map_of_None_iff_keys)
  with assms False show ?thesis
    by auto
qed

lemma fix_pda_JDict:
  assumes "fix_pda (JDict d) = Inr pda'"
  shows "\<exists>d'. pda' = JDict d' \<and>
    (\<forall>seeds. map_of d ''seeds'' = Some (JList seeds) \<longrightarrow>
       (\<exists>seeds'. map_of d' ''seeds'' = Some (JList seeds') \<and> list_all2 seed_fixed seeds seeds')) \<and>
    map_of d' ''program'' =
      (case map_of d ''program'' of
         None \<Rightarrow> None
       | Some prog \<Rightarrow> if program_ok prog then Some prog else None)"
proof -
  from assms obtain pda1 where
    1: "(if ''seeds'' \<in> set (map fst d)
            then bind (py_getitem (JDict d) ''seeds'') (\<lambda>seeds.
                 bind (fix_seeds seeds) (\<lambda>seeds'. Inr (with_seeds (JDict d) seeds')))
            else Inr (JDict d)) = Inr pda1"
    and 2: "bind (py_in ''program'' pda1) (\<lambda>has_program.
       if has_program
       then bind (py_getitem pda1 ''program'') (\<lambda>prog.
              if \<not> program_ok prog then py_pop pda1 ''program'' else Inr pda1)
       else Inr pda1) = Inr pda'"
    by (auto simp: fix_pda_def bind_eq_Inr)
  from fix_pda_seeds_step [OF 1] obtain d1 where pda1: "pda1 = JDict d1"
    and keep1: "\<forall>k. k \<noteq> ''seeds'' \<longrightarrow> map_of d1 k = map_of d k"
    and seeds: "\<forall>seeds. map_of d ''seeds'' = Some (JList seeds) \<longrightarrow>
       (\<exists>seeds'. map_of d1 ''seeds'' = Some (JList seeds') \<and> list_all2 seed_fixed seeds seeds')"
    by blast
  from 2 [unfolded pda1] have "(if ''program'' \<in> set (map fst d1)
            then bind (py_getitem (JDict d1) ''program'') (\<lambda>prog.
                   if \<not> program_ok prog then py_pop (JDict d1) ''program'' else Inr (JDict d1))
            else Inr (JDict d1)) = Inr pda'"
    by simp
  from fix_pda_program_step [OF this] obtain d' where pda': "pda' = JDict d'"
    and keep2: "\<forall>k. k \<noteq> ''program'' \<longrightarrow> map_of d' k = map_of d1 k"
    and prog: "map_of d' ''program'' =
      (case map_of d1 ''program'' of
         None \<Rightarrow> None
       | Some prog \<Rightarrow> if program_ok prog then Some prog else None)"
    by blast
  have "map_of d1 ''program'' = map_of d ''program''"
    using keep1 by simp
  moreover have "map_of d' ''seeds'' = map_of d1 ''seeds''"
    using keep2 by simp
  ultimately show ?thesis
    using pda' seeds prog by simp
qed

lemma fix_pda_shaped:
  assumes "pda_shaped pda"
  shows "\<exists>pda'. fix_pda pda = Inr pda'"
proof -
  from assms obtain d where d: "pda = JDict d"
    by (auto simp: pda_shaped_def split: json.splits)
  have "\<exists>pda1. (if ''seeds'' \<in> set (map fst d)
            then bind (py_getitem (JDict d) ''seeds'') (\<lambda>seeds.
                 bind (fix_seeds seeds) (\<lambda>seeds'. Inr (with_seeds (JDict d) seeds')))
            else Inr (JDict d)) = Inr pda1"
  proof (cases "''seeds'' \<in> set (map fst d)")
    case True
    then obtain sv where sv: "map_of d ''seeds'' = Some sv"
      by (cases "map_of d ''seeds''") (simp_all add: map_of_None_iff_keys)
    with assms d obtain seeds where s: "map_of d ''seeds'' = Some (JList seeds)"
      and sh: "list_all seed_shaped seeds"
      by (auto simp: pda_shaped_def split: json.splits)
    from fix_seeds_loop_shaped [OF sh] obtain seeds' where "fix_seeds_loop seeds = Inr seeds'"
      by blast
    with s True show ?thesis
      by (simp add: getitem_def fix_seeds_def)
  next
    case False
    then show ?thesis by simp
  qed
  then obtain pda1 where 1: "(if ''seeds'' \<in> set (map fst d)
            then bind (py_getitem (JDict d) ''seeds'') (\<lambda>seeds.
                 bind (fix_seeds seeds) (\<lambda>seeds'. Inr (with_seeds (JDict d) seeds')))
            else Inr (JDict d)) = Inr pda1"
    by blast
  from fix_pda_seeds_step [OF 1] obtain d1 where pda1: "pda1 = JDict d1"
    by blast
  have "\<exists>pda'. (if ''program'' \<in> set (map fst d1)
            then bind (py_getitem (JDict d1) ''program'') (\<lambda>prog.
                   if \<not> program_ok prog then py_pop (JDict d1) ''program'' else Inr (JDict d1))
            else Inr (JDict d1)) = Inr pda'"
    by (auto simp: getitem_def map_of_None_iff_keys simp del: set_map split: option.splits)
  with 1 pda1 d show ?thesis
    by (auto simp: fix_pda_def)
qed

lemma map_of_filter_keys:
  "map_of (filter (\<lambda>(k, v). k \<in> A) xs) k = (if k \<in> A then map_of xs k else None)"
  by (induction xs) auto

lemma keys_filter_keys:
  "set (map fst (filter (\<lambda>(k, v). k \<in> A) xs)) = set (map fst xs) \<inter> A"
  by (induction xs) auto

lemma keys_setdefault: "set (map fst (setdefault k v d)) = insert k (set (map fst d))"
  by (auto simp: setdefault_def)

lemma map_of_setdefault:
  "map_of (setdefault k v d) k' =
     (if k' = k \<and> k \<notin> set (map fst d) then Some v else map_of d k')"
proof (cases "k \<in> set (map fst d)")
  case True
  then show ?thesis
    by (simp add: setdefault_def)
next
  case False
  then have "map_of d k = None"
    by (simp add: map_of_None_iff_keys)
  with False show ?thesis
    by (cases "map_of d k'") (auto simp: setdefault_def map_add_def)
qed

lemma keys_update: "set (map fst (AList.update k v al)) = insert k (set (map fst al))"
  using dom_update [of k v al] by auto

lemma keys_defaulted:
  "set (map fst (defaulted items)) =
     insert ''signer'' (insert ''writable'' (set (map fst items) \<inter> set allowed_keys))"
  by (simp only: defaulted_def keys_setdefault keys_filter_keys)

lemma map_of_defaulted:
  "map_of (defaulted items) k =
     (if k = ''signer'' \<and>
         ''signer'' \<notin> insert ''writable'' (set (map fst items) \<inter> set allowed_keys)
      then Some (JBool False)
      else if k = ''writable'' \<and> ''writable'' \<notin> set (map fst items) \<inter> set allowed_keys
      then Some (JBool False)
      else if k \<in> set allowed_keys then map_of items k else None)"
  by (simp only: defaulted_def map_of_setdefault map_of_filter_keys keys_setdefault
      keys_filter_keys)

lemma allowed_keys_mem:
  "''name'' \<in> set allowed_keys" "''writable'' \<in> set allowed_keys"
  "''signer'' \<in> set allowed_keys" "''pda'' \<in> set allowed_keys"
  "''address'' \<in> set allowed_keys"
  by (simp_all add: allowed_keys_def)

lemma defaulted_writable:
  "''writable'' \<notin> set (map fst items) \<Longrightarrow>
     map_of (defaulted items) ''writable'' = Some (JBool False)"
  by (simp add: map_of_defaulted del: set_map)

lemma defaulted_signer:
  "''signer'' \<notin> set (map fst items) \<Longrightarrow>
     map_of (defaulted items) ''signer'' = Some (JBool False)"
  by (simp add: map_of_defaulted del: set_map)

lemma defaulted_pda: "map_of (defaulted items) ''pda'' = map_of items ''pda''"
  by (simp add: map_of_defaulted allowed_keys_mem del: set_map)

lemma defaulted_kept:
  "''name'' \<in> set (map fst items) \<Longrightarrow> map_of (defaulted items) ''name'' = map_of items ''name''"
  "''writable'' \<in> set (map fst items) \<Longrightarrow>
     map_of (defaulted items) ''writable'' = map_of items ''writable''"
  "''signer'' \<in> set (map fst items) \<Longrightarrow>
     map_of (defaulted items) ''signer'' = map_of items ''signer''"
  "''address'' \<in> set (map fst items) \<Longrightarrow>
     map_of (defaulted items) ''address'' = map_of items ''address''"
  by (simp_all add: map_of_defaulted allowed_keys_mem del: set_map)

lemma fix_account_JDict:
  "fix_account (JDict items) =
     (if ''pda'' \<in> set (map fst (defaulted items))
      then bind (getitem (defaulted items) ''pda'') (\<lambda>pda.
           bind (fix_pda pda) (\<lambda>pda'.
             Inr (JDict (AList.update ''pda'' pda' (defaulted items)))))
      else Inr (JDict (defaulted items)))"
  by (simp add: fix_account_def defaulted_def Let_def del: set_map)

lemma program_ok_iff:
  "program_ok prog \<longleftrightarrow>
     (\<exists>d. prog = JDict d \<and> ''kind'' \<in> set (map fst d) \<and> ''value'' \<in> set (map fst d))"
  by (cases prog) (simp_all add: program_ok_def)

lemma fix_account_returns:
  assumes "account_shaped items"
  shows "\<exists>r. fix_account (JDict items) = Inr r"
proof (cases "''pda'' \<in> set (map fst (defaulted items))")
  case True
  then obtain pda where pda: "map_of (defaulted items) ''pda'' = Some pda"
    by (cases "map_of (defaulted items) ''pda''") (simp_all add: map_of_None_iff_keys del: set_map)
  then have "map_of items ''pda'' = Some pda"
    by (simp only: defaulted_pda)
  with assms have "pda_shaped pda"
    by (simp add: account_shaped_def)
  then obtain pda' where "fix_pda pda = Inr pda'"
    using fix_pda_shaped by blast
  with True pda show ?thesis
    by (simp add: fix_account_JDict getitem_def del: set_map)
next
  case False
  then show ?thesis
    by (simp add: fix_account_JDict del: set_map)
qed

lemma fix_account_out:
  assumes "fix_account (JDict items) = Inr r"
  shows "\<exists>out. r = JDict out \<and>
    set (map fst out) = set (map fst (defaulted items)) \<and>
    (\<forall>k. k \<noteq> ''pda'' \<longrightarrow> map_of out k = map_of (defaulted items) k) \<and>
    (\<forall>pda. map_of items ''pda'' = Some pda \<longrightarrow>
       (\<exists>pda'. fix_pda pda = Inr pda' \<and> map_of out ''pda'' = Some pda'))"
proof (cases "''pda'' \<in> set (map fst (defaulted items))")
  case True
  with assms obtain pda pda' where pda: "map_of (defaulted items) ''pda'' = Some pda"
    and pda': "fix_pda pda = Inr pda'"
    and r: "r = JDict (AList.update ''pda'' pda' (defaulted items))"
    by (auto simp: fix_account_JDict bind_eq_Inr getitem_eq_Inr simp del: set_map)
  from pda have "map_of items ''pda'' = Some pda"
    by (simp only: defaulted_pda)
  moreover have "set (map fst (AList.update ''pda'' pda' (defaulted items))) =
      set (map fst (defaulted items))"
    using True by (auto simp only: keys_update)
  ultimately show ?thesis
    using r pda' by (simp add: update_conv' del: set_map)
next
  case False
  then have "map_of (defaulted items) ''pda'' = None"
    by (simp add: map_of_None_iff_keys del: set_map)
  then have "map_of items ''pda'' = None"
    by (simp only: defaulted_pda)
  moreover from assms False have "r = JDict (defaulted items)"
    by (simp add: fix_account_JDict del: set_map)
  ultimately show ?thesis
    by simp
qed

text \<open>
  Claim C9, amended. For an account that is a dictionary and on which \<open>fix_account\<close>
  returns, the returned object has only keys among name, writable, signer, pda and
  address; writable and signer are present, false when the account had none and as they
  were otherwise; in the derivation description every seed has lost its \<^verbatim>\<open>account\<close>
  entry and every seed of kind \<^verbatim>\<open>account\<close> has its path cut at the first dot; and
  the \<^verbatim>\<open>program\<close> entry is kept exactly when it is a dictionary with both a
  \<^verbatim>\<open>kind\<close> and a \<^verbatim>\<open>value\<close> key, and removed otherwise. \<open>fix_account\<close> returns on
  every account of the shape an interface description has: a derivation description that
  is a dictionary, seeds that are a list of dictionaries, paths that are strings.
\<close>

theorem fix_account_result:
  "(account_shaped items \<longrightarrow> (\<exists>r. fix_account (JDict items) = Inr r)) \<and>
   (fix_account (JDict items) = Inr r \<longrightarrow>
      (\<exists>out. r = JDict out \<and>
         set (map fst out) \<subseteq> {''name'', ''writable'', ''signer'', ''pda'', ''address''} \<and>
         ''writable'' \<in> set (map fst out) \<and> ''signer'' \<in> set (map fst out) \<and>
         (''writable'' \<notin> set (map fst items) \<longrightarrow> map_of out ''writable'' = Some (JBool False)) \<and>
         (''signer'' \<notin> set (map fst items) \<longrightarrow> map_of out ''signer'' = Some (JBool False)) \<and>
         (''writable'' \<in> set (map fst items) \<longrightarrow> map_of out ''writable'' = map_of items ''writable'') \<and>
         (''signer'' \<in> set (map fst items) \<longrightarrow> map_of out ''signer'' = map_of items ''signer'') \<and>
         (\<forall>pda. map_of items ''pda'' = Some (JDict pda) \<longrightarrow>
            (\<exists>pda'. map_of out ''pda'' = Some (JDict pda') \<and>
               (\<forall>seeds. map_of pda ''seeds'' = Some (JList seeds) \<longrightarrow>
                  (\<exists>seeds'. map_of pda' ''seeds'' = Some (JList seeds') \<and>
                     list_all2 seed_fixed seeds seeds')) \<and>
               map_of pda' ''program'' =
                 (case map_of pda ''program'' of
                    None \<Rightarrow> None
                  | Some prog \<Rightarrow>
                      if \<exists>d. prog = JDict d \<and> ''kind'' \<in> set (map fst d) \<and>
                           ''value'' \<in> set (map fst d)
                      then Some prog else None)))))"
proof (intro conjI impI)
  assume "account_shaped items"
  then show "\<exists>r. fix_account (JDict items) = Inr r"
    by (rule fix_account_returns)
next
  assume "fix_account (JDict items) = Inr r"
  from fix_account_out [OF this] obtain out where r: "r = JDict out"
    and keys: "set (map fst out) = set (map fst (defaulted items))"
    and kept: "\<forall>k. k \<noteq> ''pda'' \<longrightarrow> map_of out k = map_of (defaulted items) k"
    and pda: "\<forall>pda. map_of items ''pda'' = Some pda \<longrightarrow>
       (\<exists>pda'. fix_pda pda = Inr pda' \<and> map_of out ''pda'' = Some pda')"
    by blast
  have k1: "set (map fst out) \<subseteq> {''name'', ''writable'', ''signer'', ''pda'', ''address''}"
    unfolding keys keys_defaulted by (auto simp: allowed_keys_def)
  have k2: "''writable'' \<in> set (map fst out)" and k3: "''signer'' \<in> set (map fst out)"
    unfolding keys keys_defaulted by simp_all
  have w: "map_of out ''writable'' = map_of (defaulted items) ''writable''"
    and s: "map_of out ''signer'' = map_of (defaulted items) ''signer''"
    using kept by simp_all
  have d1: "''writable'' \<notin> set (map fst items) \<longrightarrow> map_of out ''writable'' = Some (JBool False)"
    unfolding w using defaulted_writable by blast
  have d2: "''signer'' \<notin> set (map fst items) \<longrightarrow> map_of out ''signer'' = Some (JBool False)"
    unfolding s using defaulted_signer by blast
  have d3: "''writable'' \<in> set (map fst items) \<longrightarrow> map_of out ''writable'' = map_of items ''writable''"
    unfolding w using defaulted_kept(2) by blast
  have d4: "''signer'' \<in> set (map fst items) \<longrightarrow> map_of out ''signer'' = map_of items ''signer''"
    unfolding s using defaulted_kept(3) by blast
  have p: "\<exists>pda'. map_of out ''pda'' = Some (JDict pda') \<and>
       (\<forall>seeds. map_of d ''seeds'' = Some (JList seeds) \<longrightarrow>
          (\<exists>seeds'. map_of pda' ''seeds'' = Some (JList seeds') \<and>
             list_all2 seed_fixed seeds seeds')) \<and>
       map_of pda' ''program'' =
         (case map_of d ''program'' of
            None \<Rightarrow> None
          | Some prog \<Rightarrow>
              if \<exists>d'. prog = JDict d' \<and> ''kind'' \<in> set (map fst d') \<and>
                   ''value'' \<in> set (map fst d')
              then Some prog else None)"
    if "map_of items ''pda'' = Some (JDict d)" for d
  proof -
    from pda that obtain v where v: "fix_pda (JDict d) = Inr v" and o: "map_of out ''pda'' = Some v"
      by blast
    from fix_pda_JDict [OF v] o show ?thesis
      unfolding program_ok_iff by blast
  qed
  from r k1 k2 k3 d1 d2 d3 d4 p
  show "\<exists>out. r = JDict out \<and>
         set (map fst out) \<subseteq> {''name'', ''writable'', ''signer'', ''pda'', ''address''} \<and>
         ''writable'' \<in> set (map fst out) \<and> ''signer'' \<in> set (map fst out) \<and>
         (''writable'' \<notin> set (map fst items) \<longrightarrow> map_of out ''writable'' = Some (JBool False)) \<and>
         (''signer'' \<notin> set (map fst items) \<longrightarrow> map_of out ''signer'' = Some (JBool False)) \<and>
         (''writable'' \<in> set (map fst items) \<longrightarrow> map_of out ''writable'' = map_of items ''writable'') \<and>
         (''signer'' \<in> set (map fst items) \<longrightarrow> map_of out ''signer'' = map_of items ''signer'') \<and>
         (\<forall>pda. map_of items ''pda'' = Some (JDict pda) \<longrightarrow>
            (\<exists>pda'. map_of out ''pda'' = Some (JDict pda') \<and>
               (\<forall>seeds. map_of pda ''seeds'' = Some (JList seeds) \<longrightarrow>
                  (\<exists>seeds'. map_of pda' ''seeds'' = Some (JList seeds') \<and>
                     list_all2 seed_fixed seeds seeds')) \<and>
               map_of pda' ''program'' =
                 (case map_of pda ''program'' of
                    None \<Rightarrow> None
                  | Some prog \<Rightarrow>
                      if \<exists>d. prog = JDict d \<and> ''kind'' \<in> set (map fst d) \<and>
                           ''value'' \<in> set (map fst d)
                      then Some prog else None)))"
    by blast
qed

lemma sample_account_shaped:
  "account_shaped sample_account" "account_shaped sample_account_override"
  by (simp_all add: account_shaped_def pda_shaped_def seed_shaped_def sample_account_def
      sample_account_override_def)

lemma fix_account_sample:
  "fix_account (JDict sample_account) =
     Inr (JDict
       [(''name'', JStr ''affiliate_account''),
        (''writable'', JBool True),
        (''pda'', JDict
           [(''seeds'', JList
              [JDict [(''kind'', JStr ''const''), (''value'', JList [JNum 97, JNum 102])],
               JDict [(''kind'', JStr ''account''), (''path'', JStr ''merchant_pool'')]])]),
        (''signer'', JBool False)])"
  by (simp add: fix_account_def sample_account_def allowed_keys_def setdefault_def getitem_def
      fix_pda_def fix_seeds_def fix_seed_def first_component_def program_ok_def)

lemma fix_account_sample_override:
  "fix_account (JDict sample_account_override) =
     Inr (JDict
       [(''name'', JStr ''escrow_usdc''),
        (''signer'', JBool False),
        (''pda'', JDict
           [(''seeds'', JList
              [JDict [(''kind'', JStr ''account''), (''path'', JStr ''escrow_authority'')],
               JDict [(''kind'', JStr ''account''), (''path'', JStr ''usdc_mint'')]]),
            (''program'', JDict [(''kind'', JStr ''const''),
                                 (''value'', JList [JNum 140, JNum 151])])]),
        (''writable'', JBool False)])"
  by (simp add: fix_account_def sample_account_override_def allowed_keys_def setdefault_def
      getitem_def fix_pda_def fix_seeds_def fix_seed_def first_component_def program_ok_def)

theorem fix_account_result_witness:
  "account_shaped sample_account \<and>
   (\<exists>out pda' seeds'.
      fix_account (JDict sample_account) = Inr (JDict out) \<and>
      set (map fst out) \<subseteq> {''name'', ''writable'', ''signer'', ''pda'', ''address''} \<and>
      map_of out ''writable'' = Some (JBool True) \<and>
      map_of out ''signer'' = Some (JBool False) \<and>
      map_of out ''pda'' = Some (JDict pda') \<and>
      map_of pda' ''seeds'' = Some (JList seeds') \<and>
      list_all2 seed_fixed
        [JDict [(''kind'', JStr ''const''), (''value'', JList [JNum 97, JNum 102])],
         JDict [(''kind'', JStr ''account''), (''path'', JStr ''merchant_pool.merchant''),
                (''account'', JStr ''MerchantPool'')]] seeds' \<and>
      map_of pda' ''program'' = None) \<and>
   account_shaped sample_account_override \<and>
   (\<exists>out pda'.
      fix_account (JDict sample_account_override) = Inr (JDict out) \<and>
      set (map fst out) \<subseteq> {''name'', ''writable'', ''signer'', ''pda'', ''address''} \<and>
      map_of out ''writable'' = Some (JBool False) \<and>
      map_of out ''signer'' = Some (JBool False) \<and>
      map_of out ''pda'' = Some (JDict pda') \<and>
      map_of pda' ''program'' =
        Some (JDict [(''kind'', JStr ''const''), (''value'', JList [JNum 140, JNum 151])]))"
proof -
  have first: "\<exists>out pda' seeds'.
      fix_account (JDict sample_account) = Inr (JDict out) \<and>
      set (map fst out) \<subseteq> {''name'', ''writable'', ''signer'', ''pda'', ''address''} \<and>
      map_of out ''writable'' = Some (JBool True) \<and>
      map_of out ''signer'' = Some (JBool False) \<and>
      map_of out ''pda'' = Some (JDict pda') \<and>
      map_of pda' ''seeds'' = Some (JList seeds') \<and>
      list_all2 seed_fixed
        [JDict [(''kind'', JStr ''const''), (''value'', JList [JNum 97, JNum 102])],
         JDict [(''kind'', JStr ''account''), (''path'', JStr ''merchant_pool.merchant''),
                (''account'', JStr ''MerchantPool'')]] seeds' \<and>
      map_of pda' ''program'' = None"
  proof -
    from fix_account_result [of sample_account] sample_account_shaped(1)
    obtain r where r: "fix_account (JDict sample_account) = Inr r"
      by blast
    from fix_account_result [of sample_account r] r
    obtain out where out: "r = JDict out"
      and keys: "set (map fst out) \<subseteq> {''name'', ''writable'', ''signer'', ''pda'', ''address''}"
      and w: "''writable'' \<in> set (map fst sample_account) \<longrightarrow>
        map_of out ''writable'' = map_of sample_account ''writable''"
      and s: "''signer'' \<notin> set (map fst sample_account) \<longrightarrow>
        map_of out ''signer'' = Some (JBool False)"
      and p: "\<forall>pda. map_of sample_account ''pda'' = Some (JDict pda) \<longrightarrow>
              (\<exists>pda'. map_of out ''pda'' = Some (JDict pda') \<and>
                 (\<forall>seeds. map_of pda ''seeds'' = Some (JList seeds) \<longrightarrow>
                    (\<exists>seeds'. map_of pda' ''seeds'' = Some (JList seeds') \<and>
                       list_all2 seed_fixed seeds seeds')) \<and>
                 map_of pda' ''program'' =
                   (case map_of pda ''program'' of
                      None \<Rightarrow> None
                    | Some prog \<Rightarrow>
                        if \<exists>d. prog = JDict d \<and> ''kind'' \<in> set (map fst d) \<and>
                             ''value'' \<in> set (map fst d)
                        then Some prog else None))"
      by blast
    have w': "map_of out ''writable'' = Some (JBool True)"
      using w by (simp add: sample_account_def)
    have s': "map_of out ''signer'' = Some (JBool False)"
      using s by (simp add: sample_account_def)
    have "map_of sample_account ''pda'' = Some (JDict
           [(''seeds'', JList
              [JDict [(''kind'', JStr ''const''), (''value'', JList [JNum 97, JNum 102])],
               JDict [(''kind'', JStr ''account''), (''path'', JStr ''merchant_pool.merchant''),
                      (''account'', JStr ''MerchantPool'')]]),
            (''program'', JDict [(''kind'', JStr ''const'')])])"
      by (simp add: sample_account_def)
    with p obtain pda' seeds' where "map_of out ''pda'' = Some (JDict pda')"
      and "map_of pda' ''seeds'' = Some (JList seeds')"
      and "list_all2 seed_fixed
          [JDict [(''kind'', JStr ''const''), (''value'', JList [JNum 97, JNum 102])],
           JDict [(''kind'', JStr ''account''), (''path'', JStr ''merchant_pool.merchant''),
                  (''account'', JStr ''MerchantPool'')]] seeds'"
      and "map_of pda' ''program'' = None"
      by fastforce
    with r out keys w' s' show ?thesis
      by blast
  qed
  have second: "\<exists>out pda'.
      fix_account (JDict sample_account_override) = Inr (JDict out) \<and>
      set (map fst out) \<subseteq> {''name'', ''writable'', ''signer'', ''pda'', ''address''} \<and>
      map_of out ''writable'' = Some (JBool False) \<and>
      map_of out ''signer'' = Some (JBool False) \<and>
      map_of out ''pda'' = Some (JDict pda') \<and>
      map_of pda' ''program'' =
        Some (JDict [(''kind'', JStr ''const''), (''value'', JList [JNum 140, JNum 151])])"
  proof -
    from fix_account_result [of sample_account_override] sample_account_shaped(2)
    obtain r where r: "fix_account (JDict sample_account_override) = Inr r"
      by blast
    from fix_account_result [of sample_account_override r] r
    obtain out where out: "r = JDict out"
      and keys: "set (map fst out) \<subseteq> {''name'', ''writable'', ''signer'', ''pda'', ''address''}"
      and w: "''writable'' \<notin> set (map fst sample_account_override) \<longrightarrow>
        map_of out ''writable'' = Some (JBool False)"
      and s: "''signer'' \<in> set (map fst sample_account_override) \<longrightarrow>
        map_of out ''signer'' = map_of sample_account_override ''signer''"
      and p: "\<forall>pda. map_of sample_account_override ''pda'' = Some (JDict pda) \<longrightarrow>
              (\<exists>pda'. map_of out ''pda'' = Some (JDict pda') \<and>
                 (\<forall>seeds. map_of pda ''seeds'' = Some (JList seeds) \<longrightarrow>
                    (\<exists>seeds'. map_of pda' ''seeds'' = Some (JList seeds') \<and>
                       list_all2 seed_fixed seeds seeds')) \<and>
                 map_of pda' ''program'' =
                   (case map_of pda ''program'' of
                      None \<Rightarrow> None
                    | Some prog \<Rightarrow>
                        if \<exists>d. prog = JDict d \<and> ''kind'' \<in> set (map fst d) \<and>
                             ''value'' \<in> set (map fst d)
                        then Some prog else None))"
      by blast
    have w': "map_of out ''writable'' = Some (JBool False)"
      using w by (simp add: sample_account_override_def)
    have s': "map_of out ''signer'' = Some (JBool False)"
      using s by (simp add: sample_account_override_def)
    have "map_of sample_account_override ''pda'' = Some (JDict
         [(''seeds'', JList
            [JDict [(''kind'', JStr ''account''), (''path'', JStr ''escrow_authority'')],
             JDict [(''kind'', JStr ''account''), (''path'', JStr ''usdc_mint'')]]),
          (''program'', JDict [(''kind'', JStr ''const''), (''value'', JList [JNum 140, JNum 151])])])"
      by (simp add: sample_account_override_def)
    with p obtain pda' where "map_of out ''pda'' = Some (JDict pda')"
      and "map_of pda' ''program'' =
        Some (JDict [(''kind'', JStr ''const''), (''value'', JList [JNum 140, JNum 151])])"
      by fastforce
    with r out keys w' s' show ?thesis
      by blast
  qed
  from first second sample_account_shaped show ?thesis
    by blast
qed

text \<open>
  Claim C9, as stated: for every account that is a dictionary, \<open>fix_account\<close> returns an
  object. On the account whose derivation description is null it raises instead: the
  test \<^verbatim>\<open>'seeds' in pda\<close> is a type error on \<^verbatim>\<open>None\<close>.
\<close>

theorem fix_account_null_pda_counterexample:
  "fix_account (JDict [(''name'', JStr ''pool''), (''pda'', JNull)]) = Inl TypeError"
  by (simp add: fix_account_def allowed_keys_def setdefault_def getitem_def fix_pda_def)

text \<open>Other values on which the function raises, and the string it passes through.\<close>

lemma fix_account_raises:
  "fix_account (JDict [(''pda'', JDict [(''seeds'', JList [JStr ''pool''])])]) = Inl AttributeError"
  "fix_account (JDict [(''pda'', JDict [(''seeds'', JNum 5)])]) = Inl TypeError"
  "fix_account (JList []) = Inl AttributeError"
  "fix_account (JStr ''pool'') = Inr (JStr ''pool'')"
  by (simp_all add: fix_account_def allowed_keys_def setdefault_def getitem_def fix_pda_def
      fix_seeds_def fix_seed_def)

section \<open>Further facts about the client\<close>

subsection \<open>The program identifiers\<close>

text \<open>
  The four identifiers decode from base58 to 32 bytes each; the system program is the
  all-zero address.
\<close>

lemma from_string_identifiers:
  "from_string ''CFQoHeX28aKhpgsLCSGM2zpou6RkRrwRoHVToWS2B6tQ'' =
     Inr (Pubkey [167, 33, 152, 151, 100, 200, 175, 249, 164, 7, 30, 47, 255, 208, 86, 141,
                  90, 96, 156, 224, 248, 217, 187, 214, 127, 70, 21, 76, 44, 55, 150, 217])"
  "from_string ''TokenkegQfeZyiNwAJbNbGKPFXCWuBvf9Ss623VQ5DA'' =
     Inr (Pubkey [6, 221, 246, 225, 215, 101, 161, 147, 217, 203, 225, 70, 206, 235, 121, 172,
                  28, 180, 133, 237, 95, 91, 55, 145, 58, 140, 245, 133, 126, 255, 0, 169])"
  "from_string ''ATokenGPvbdGVxr1b2hvZbsiqW5xWH25efTNsLJA8knL'' =
     Inr (Pubkey [140, 151, 37, 143, 78, 36, 137, 241, 187, 61, 16, 41, 20, 142, 13, 131,
                  11, 90, 19, 153, 218, 255, 16, 132, 4, 142, 123, 216, 219, 233, 248, 89])"
  "from_string ''11111111111111111111111111111111'' =
     Inr (Pubkey [0, 0, 0, 0, 0, 0, 0, 0, 0, 0, 0, 0, 0, 0, 0, 0,
                  0, 0, 0, 0, 0, 0, 0, 0, 0, 0, 0, 0, 0, 0, 0, 0])"
  by (simp_all add: from_string_def b58decode_def b58_alphabet_def be_bytes.simps)

lemma identifiers_distinct:
  "distinct [PROGRAM_ID, TOKEN_PROGRAM_ID, ASSOCIATED_TOKEN_PROGRAM_ID, SYS_PROGRAM_ID]"
  by (simp add: PROGRAM_ID_def TOKEN_PROGRAM_ID_def ASSOCIATED_TOKEN_PROGRAM_ID_def
      SYS_PROGRAM_ID_def from_string_identifiers)

subsection \<open>Distinct wallets\<close>

text \<open>
  Two wallets give two seed lists for the affiliate account. Whether they give two
  addresses is a property of the search in the library: it holds for a search without
  collisions, and fails for one that maps all seeds to one address.
\<close>

lemma affiliate_seeds_distinct:
  "wallet_a \<noteq> wallet_b \<Longrightarrow>
     [ascii ''affiliate'', to_bytes pool, to_bytes wallet_a] \<noteq>
     [ascii ''affiliate'', to_bytes pool, to_bytes wallet_b]"
  by (cases wallet_a; cases wallet_b) simp

lemma find_affiliate_pda_collision_free:
  assumes free: "\<And>s t a b c. fpa s PROGRAM_ID = Some (a, b) \<Longrightarrow> fpa t PROGRAM_ID = Some (a, c) \<Longrightarrow> s = t"
    and "wallet_a \<noteq> wallet_b"
    and "find_affiliate_pda fpa pool wallet_a = Inr (addr_a, bump_a)"
    and "find_affiliate_pda fpa pool wallet_b = Inr (addr_b, bump_b)"
  shows "addr_a \<noteq> addr_b"
proof
  assume "addr_a = addr_b"
  with assms(3,4) have "fpa [ascii ''affiliate'', to_bytes pool, to_bytes wallet_a] PROGRAM_ID =
      Some (addr_a, bump_a)"
    and "fpa [ascii ''affiliate'', to_bytes pool, to_bytes wallet_b] PROGRAM_ID =
      Some (addr_a, bump_b)"
    by (auto simp: find_affiliate_pda_def find_program_address_def split: option.splits)
  then have "[ascii ''affiliate'', to_bytes pool, to_bytes wallet_a] =
      [ascii ''affiliate'', to_bytes pool, to_bytes wallet_b]"
    by (rule free)
  with affiliate_seeds_distinct [OF assms(2)] show False
    by blast
qed

lemma find_affiliate_pda_colliding_search:
  "find_affiliate_pda (\<lambda>seeds prog. Some (prog, 255)) pool sample_wallet =
     find_affiliate_pda (\<lambda>seeds prog. Some (prog, 255)) pool sample_mint \<and>
   sample_wallet \<noteq> sample_mint"
  by (simp add: find_affiliate_pda_def find_program_address_def sample_wallet_def sample_mint_def)

end
